theory Spec2Isabelle
  imports Main "HOL-Library.Word"
begin

section \<open>JavaScript strings and values\<close>

text \<open>
  A JavaScript string is a sequence of UTF-16 code units. Literals of the source are
  ASCII and are embedded with \<open>js\<close>.
\<close>

type_synonym cu = "16 word"
type_synonym jsstring = "cu list"

definition js :: "string \<Rightarrow> jsstring" where
  "js s = map of_char s"

text \<open>
  The code units that the regular-expression escape \<^verbatim>\<open>\s\<close> matches and that
  \<^verbatim>\<open>String.prototype.trim\<close> strips: ECMAScript's WhiteSpace and LineTerminator
  (TAB, LF, VT, FF, CR, SP, NBSP, the Unicode space separators, LS, PS, and the BOM).
\<close>

definition isWhiteSpace :: "cu \<Rightarrow> bool" where
  "isWhiteSpace c \<longleftrightarrow>
     c = 0x09 \<or> c = 0x0A \<or> c = 0x0B \<or> c = 0x0C \<or> c = 0x0D \<or> c = 0x20 \<or> c = 0xA0 \<or>
     c = 0x1680 \<or> (0x2000 \<le> c \<and> c \<le> 0x200A) \<or> c = 0x2028 \<or> c = 0x2029 \<or>
     c = 0x202F \<or> c = 0x205F \<or> c = 0x3000 \<or> c = 0xFEFF"

definition trim :: "jsstring \<Rightarrow> jsstring" where
  "trim s = rev (dropWhile isWhiteSpace (rev (dropWhile isWhiteSpace s)))"

text \<open>
  \<^verbatim>\<open>String.prototype.toLowerCase\<close> is the Unicode default lower-case conversion. On a
  string of ASCII code units it maps A to Z onto a to z and nothing else. On any other
  string it is taken as given: the conversion \<open>unicode\<close> is a parameter, about which
  nothing is assumed.
\<close>

definition lower :: "cu \<Rightarrow> cu" where
  "lower c = (if 0x41 \<le> c \<and> c \<le> 0x5A then c + 0x20 else c)"

definition isASCII :: "jsstring \<Rightarrow> bool" where
  "isASCII s = list_all (\<lambda>c. c < 0x80) s"

definition toLowerCase :: "(jsstring \<Rightarrow> jsstring) \<Rightarrow> jsstring \<Rightarrow> jsstring" where
  "toLowerCase unicode s = (if isASCII s then map lower s else unicode s)"

text \<open>
  A field of a parsed request body. The handlers observe a value only through its
  truthiness, its string conversion and whether it is a string (only strings have a
  \<^verbatim>\<open>trim\<close> method), and Mongoose's string cast reads the \<^verbatim>\<open>_id\<close> of an
  object. So a boolean or number is given by its truthiness and its string conversion,
  and an array or object (always truthy) by its string conversion and by its
  \<^verbatim>\<open>_id\<close> where that is a non-empty string. \<open>Undefined\<close> is an absent key.
\<close>

datatype jsval =
    Undefined
  | Null
  | Str jsstring
  | Prim bool jsstring
  | Object jsstring "jsstring option"

fun truthy :: "jsval \<Rightarrow> bool" where
  "truthy Undefined = False"
| "truthy Null = False"
| "truthy (Str s) = (s \<noteq> [])"
| "truthy (Prim t s) = t"
| "truthy (Object s i) = True"

fun ToString :: "jsval \<Rightarrow> jsstring" where
  "ToString Undefined = js ''undefined''"
| "ToString Null = js ''null''"
| "ToString (Str s) = s"
| "ToString (Prim t s) = s"
| "ToString (Object s i) = s"

text \<open>An optional string interpolated into a template literal.\<close>

fun interpolate :: "jsstring option \<Rightarrow> jsstring" where
  "interpolate None = js ''undefined''"
| "interpolate (Some s) = s"

datatype error = TypeError | ValidationError | CastError | StorageError

text \<open>The method call \<^verbatim>\<open>v.trim()\<close>: a TypeError unless \<open>v\<close> is a string.\<close>

fun call_trim :: "jsval \<Rightarrow> error + jsstring" where
  "call_trim (Str s) = Inr (trim s)"
| "call_trim v = Inl TypeError"

section \<open>The regular expression of the e-mail check\<close>

text \<open>
  The fragment of regular expressions that \<^verbatim>\<open>/^[^\s@]+@[^\s@]+\.[^\s@]+$/\<close> uses:
  a concatenation of pieces, each a single atom or an atom repeated one or more times,
  an atom being a literal code unit or a negated character class. \<open>seq_rests ps s\<close>
  lists the remainders of \<open>s\<close> after every way of matching \<open>ps\<close> at its start; with
  both anchors and no flags, \<^verbatim>\<open>test\<close> succeeds when some match leaves nothing.
\<close>

datatype class_item = Lit cu | Esc_s
datatype atom = Lit_char cu | NegClass "class_item list"
datatype piece = Single atom | OneOrMore atom

fun item_matches :: "class_item \<Rightarrow> cu \<Rightarrow> bool" where
  "item_matches (Lit a) c = (c = a)"
| "item_matches Esc_s c = isWhiteSpace c"

fun atom_matches :: "atom \<Rightarrow> cu \<Rightarrow> bool" where
  "atom_matches (Lit_char a) c = (c = a)"
| "atom_matches (NegClass items) c = (\<not> list_ex (\<lambda>i. item_matches i c) items)"

fun plus_rests :: "atom \<Rightarrow> jsstring \<Rightarrow> jsstring list" where
  "plus_rests a [] = []"
| "plus_rests a (c # cs) = (if atom_matches a c then plus_rests a cs @ [cs] else [])"

fun piece_rests :: "piece \<Rightarrow> jsstring \<Rightarrow> jsstring list" where
  "piece_rests (Single a) [] = []"
| "piece_rests (Single a) (c # cs) = (if atom_matches a c then [cs] else [])"
| "piece_rests (OneOrMore a) s = plus_rests a s"

fun seq_rests :: "piece list \<Rightarrow> jsstring \<Rightarrow> jsstring list" where
  "seq_rests [] s = [s]"
| "seq_rests (p # ps) s = concat (map (seq_rests ps) (piece_rests p s))"

definition regex_test :: "piece list \<Rightarrow> jsstring \<Rightarrow> bool" where
  "regex_test ps s = ([] \<in> set (seq_rests ps s))"

definition emailRegex :: "piece list" where
  "emailRegex =
     [OneOrMore (NegClass [Esc_s, Lit 0x40]), Single (Lit_char 0x40),
      OneOrMore (NegClass [Esc_s, Lit 0x40]), Single (Lit_char 0x2E),
      OneOrMore (NegClass [Esc_s, Lit 0x40])]"

text \<open>
  The pattern in words, for comparison with the regular expression: a non-empty local
  part, an \<open>@\<close>, a non-empty domain, a dot and a non-empty top-level part, where no
  part holds white space or an \<open>@\<close>.
\<close>

definition email_char :: "cu \<Rightarrow> bool" where
  "email_char c \<longleftrightarrow> \<not> isWhiteSpace c \<and> c \<noteq> 0x40"

definition local_at_domain_tld :: "jsstring \<Rightarrow> bool" where
  "local_at_domain_tld s \<longleftrightarrow>
     (\<exists>l d t. s = l @ [0x40] @ d @ [0x2E] @ t \<and> l \<noteq> [] \<and> d \<noteq> [] \<and> t \<noteq> [] \<and>
        list_all email_char l \<and> list_all email_char d \<and> list_all email_char t)"

section \<open>Documents, requests and the world\<close>

text \<open>
  The documents of the Contact, Visitor and Blog collections, with the paths the program
  reads or writes. A path that may be null or missing is an option. Documents are never
  deleted, so a document's position in its collection identifies it. The view counter of
  a post, a JavaScript number, holds a non-negative whole number.
\<close>

record contact =
  c_name :: jsstring
  c_email :: jsstring
  c_subject :: jsstring
  c_message :: jsstring
  c_ipAddress :: "jsstring option"
  c_userAgent :: "jsstring option"
  c_status :: "jsstring option"
  c_createdAt :: nat
  c_readAt :: "nat option"
  c_repliedAt :: "nat option"

record visit =
  page :: jsstring
  timestamp :: nat

record visitor =
  v_ipAddress :: "jsstring option"
  v_userAgent :: "jsstring option"
  v_referrer :: "jsstring option"
  v_visitedPages :: "visit list"
  v_isReturningVisitor :: bool
  v_createdAt :: nat
  v_lastVisit :: nat

record blog =
  b_title :: jsstring
  b_slug :: jsstring
  b_content :: jsstring
  b_published :: bool
  b_views :: nat
  b_likes :: nat

record mail =
  m_from :: "jsstring option"
  m_to :: jsstring
  m_subject :: jsstring
  m_html :: jsstring

text \<open>
  The world a request acts on: the three collections, and the trace of the Contact
  writes and mail dispatches in the order they happened.
\<close>

datatype event = Contact_saved contact | Mail_sent mail | Mail_failed mail

record world =
  contacts :: "contact list"
  visitors :: "visitor list"
  blogs :: "blog list"
  trace :: "event list"

record request =
  ip :: "jsstring option"
  remoteAddress :: "jsstring option"
  header :: "string \<Rightarrow> jsstring option"
  originalUrl :: jsstring
  body :: "string \<Rightarrow> jsval"
  params :: "string \<Rightarrow> jsstring"

datatype content =
    Json_message jsstring
  | Text_message jsstring
  | Json_contact jsstring contact
  | Json_blog blog

record response =
  status_code :: nat
  content :: content

definition json_message :: "nat \<Rightarrow> jsstring \<Rightarrow> response" where
  "json_message code msg = \<lparr>status_code = code, content = Json_message msg\<rparr>"

text \<open>What a middleware does: pass on with \<^verbatim>\<open>next()\<close>, or respond itself.\<close>

datatype mw = Next world | Respond response world

text \<open>
  The collaborators outside the program, as one request meets them: the environment
  variable, the clock (the readings taken while one request is handled are one instant
  \<open>now\<close>) and its locale rendering, the lower-case conversion of the runtime on strings
  outside ASCII, whether each storage operation and each
  \<^verbatim>\<open>sendMail\<close> resolves or rejects, the verdict of \<^verbatim>\<open>jwt.verify\<close>, the cast of a
  route parameter to a document id, and whether this version of Mongoose drops an
  undefined key of an update (or writes null).
\<close>

record env =
  EMAIL_USER :: "jsstring option"
  now :: nat
  toLocaleString :: "nat \<Rightarrow> jsstring"
  unicode_toLowerCase :: "jsstring \<Rightarrow> jsstring"
  visitor_findOne_ok :: bool
  visitor_save_ok :: bool
  contact_save_ok :: bool
  mailOptions_ok :: bool
  autoReplyOptions_ok :: bool
  blog_findOne_ok :: bool
  blog_save_ok :: bool
  contact_update_ok :: bool
  jwt_verify :: "jsstring \<Rightarrow> bool"
  cast_ObjectId :: "jsstring \<Rightarrow> nat option"
  omitUndefined :: bool

section \<open>The schemas\<close>

text \<open>
  What the schema declarations mean to Mongoose. Setters (\<^verbatim>\<open>trim\<close>,
  \<^verbatim>\<open>lowercase\<close>) and defaults apply when a document is constructed, the setter
  declared last first. \<^verbatim>\<open>save\<close>
  validates: a required string path rejects a missing value and the empty string, an
  \<^verbatim>\<open>enum\<close> rejects a string outside its list. An update through
  \<^verbatim>\<open>findByIdAndUpdate\<close> casts its values and runs no validator (the
  \<^verbatim>\<open>runValidators\<close> option is not set).
\<close>

definition status_enum :: "jsstring list" where
  "status_enum = [js ''new'', js ''read'', js ''replied'', js ''archived'']"

definition new_Contact ::
  "env \<Rightarrow> jsstring \<Rightarrow> jsstring \<Rightarrow> jsstring \<Rightarrow> jsstring \<Rightarrow> jsstring option \<Rightarrow> jsstring option \<Rightarrow> contact" where
  "new_Contact env name email subject message ipAddress userAgent =
     \<lparr>c_name = trim name, c_email = trim (toLowerCase (unicode_toLowerCase env) email),
      c_subject = trim subject,
      c_message = trim message, c_ipAddress = ipAddress, c_userAgent = userAgent,
      c_status = Some (js ''new''), c_createdAt = now env, c_readAt = None,
      c_repliedAt = None\<rparr>"

definition contact_valid :: "contact \<Rightarrow> bool" where
  "contact_valid c \<longleftrightarrow>
     c_name c \<noteq> [] \<and> c_email c \<noteq> [] \<and> c_subject c \<noteq> [] \<and> c_message c \<noteq> [] \<and>
     (case c_status c of None \<Rightarrow> True | Some s \<Rightarrow> s \<in> set status_enum)"

definition Contact_save :: "env \<Rightarrow> contact \<Rightarrow> world \<Rightarrow> error + world" where
  "Contact_save env c w =
     (if \<not> contact_valid c then Inl ValidationError
      else if \<not> contact_save_ok env then Inl StorageError
      else Inr (w\<lparr>contacts := contacts w @ [c], trace := trace w @ [Contact_saved c]\<rparr>))"

definition new_Visitor ::
  "env \<Rightarrow> jsstring option \<Rightarrow> jsstring option \<Rightarrow> jsstring option \<Rightarrow> visit list \<Rightarrow> visitor" where
  "new_Visitor env ipAddress userAgent referrer visitedPages =
     \<lparr>v_ipAddress = ipAddress, v_userAgent = userAgent, v_referrer = referrer,
      v_visitedPages = visitedPages, v_isReturningVisitor = False, v_createdAt = now env,
      v_lastVisit = now env\<rparr>"

definition visitor_valid :: "visitor \<Rightarrow> bool" where
  "visitor_valid v \<longleftrightarrow> (case v_ipAddress v of None \<Rightarrow> False | Some a \<Rightarrow> a \<noteq> [])"

text \<open>
  \<^verbatim>\<open>save\<close> of a Visitor: an insert for a new document (\<open>slot = None\<close>), a write to
  its own place for one that \<^verbatim>\<open>findOne\<close> returned.
\<close>

definition Visitor_save :: "env \<Rightarrow> nat option \<Rightarrow> visitor \<Rightarrow> world \<Rightarrow> error + world" where
  "Visitor_save env slot v w =
     (if \<not> visitor_valid v then Inl ValidationError
      else if \<not> visitor_save_ok env then Inl StorageError
      else Inr (case slot of
                  None \<Rightarrow> w\<lparr>visitors := visitors w @ [v]\<rparr>
                | Some i \<Rightarrow> w\<lparr>visitors := (visitors w)[i := v]\<rparr>))"

text \<open>
  \<^verbatim>\<open>x + 1\<close> on a double that holds a non-negative whole number \<open>x\<close>: exact below
  \<open>2\<^sup>5\<^sup>3\<close>; from there to \<open>2\<^sup>5\<^sup>4\<close> the doubles are the even numbers
  and the sum lies halfway between two of them, rounded to the one with the even
  significand; above, the sum is rounded back to \<open>x\<close>.
\<close>

definition add_one :: "nat \<Rightarrow> nat" where
  "add_one x =
     (if x < 2 ^ 53 then x + 1
      else if x < 2 ^ 54 \<and> x mod 4 = 2 then x + 2
      else x)"

definition blog_valid :: "blog \<Rightarrow> bool" where
  "blog_valid b \<longleftrightarrow> b_title b \<noteq> [] \<and> b_slug b \<noteq> [] \<and> b_content b \<noteq> []"

definition Blog_save :: "env \<Rightarrow> nat \<Rightarrow> blog \<Rightarrow> world \<Rightarrow> error + world" where
  "Blog_save env i b w =
     (if \<not> blog_valid b then Inl ValidationError
      else if \<not> blog_save_ok env then Inl StorageError
      else Inr (w\<lparr>blogs := (blogs w)[i := b]\<rparr>))"

text \<open>\<^verbatim>\<open>findOne\<close>: the place of the first document that satisfies the filter.\<close>

fun findOne :: "('a \<Rightarrow> bool) \<Rightarrow> 'a list \<Rightarrow> nat option" where
  "findOne P [] = None"
| "findOne P (x # xs) = (if P x then Some 0 else map_option Suc (findOne P xs))"

text \<open>One key of an update document: leave the path as it is, or set it.\<close>

datatype 'a upd = Keep | Set_to 'a

fun apply_upd :: "'a upd \<Rightarrow> 'a \<Rightarrow> 'a" where
  "apply_upd Keep x = x"
| "apply_upd (Set_to y) x = y"

definition undefined_key :: "env \<Rightarrow> 'a option upd" where
  "undefined_key env = (if omitUndefined env then Keep else Set_to None)"

text \<open>
  The cast of an update value for a String path: a string as it is, a boolean or number
  by its string conversion, null as null, an object with a string \<^verbatim>\<open>_id\<close> as that
  string, any other array or object a CastError.
\<close>

fun cast_string_update :: "env \<Rightarrow> jsval \<Rightarrow> error + jsstring option upd" where
  "cast_string_update env Undefined = Inr (undefined_key env)"
| "cast_string_update env Null = Inr (Set_to None)"
| "cast_string_update env (Str s) = Inr (Set_to (Some s))"
| "cast_string_update env (Prim t s) = Inr (Set_to (Some s))"
| "cast_string_update env (Object s (Some i)) = Inr (Set_to (Some i))"
| "cast_string_update env (Object s None) = Inl CastError"

definition Contact_findByIdAndUpdate ::
  "env \<Rightarrow> jsstring \<Rightarrow> jsval \<Rightarrow> nat option upd \<Rightarrow> nat option upd \<Rightarrow> world
     \<Rightarrow> error + (contact option \<times> world)" where
  "Contact_findByIdAndUpdate env ident status readAt repliedAt w =
     (case cast_ObjectId env ident of
        None \<Rightarrow> Inl CastError
      | Some i \<Rightarrow>
          (case cast_string_update env status of
             Inl e \<Rightarrow> Inl e
           | Inr st \<Rightarrow>
               if \<not> contact_update_ok env then Inl StorageError
               else if i < length (contacts w) then
                 (let c = contacts w ! i;
                      c' = c\<lparr>c_status := apply_upd st (c_status c),
                             c_readAt := apply_upd readAt (c_readAt c),
                             c_repliedAt := apply_upd repliedAt (c_repliedAt c)\<rparr>
                  in Inr (Some c', w\<lparr>contacts := (contacts w)[i := c']\<rparr>))
               else Inr (None, w)))"

text \<open>
  \<^verbatim>\<open>transporter.sendMail\<close>: the dispatch is recorded in the trace, delivered or
  failed as the transport decides.
\<close>

definition sendMail :: "bool \<Rightarrow> mail \<Rightarrow> world \<Rightarrow> bool \<times> world" where
  "sendMail ok m w = (ok, w\<lparr>trace := trace w @ [if ok then Mail_sent m else Mail_failed m]\<rparr>)"

section \<open>Middleware\<close>

fun split :: "cu \<Rightarrow> jsstring \<Rightarrow> jsstring list" where
  "split sep [] = [[]]"
| "split sep (c # cs) =
     (if c = sep then [] # split sep cs
      else (case split sep cs of [] \<Rightarrow> [[c]] | x # xs \<Rightarrow> (c # x) # xs))"

text \<open>\<^verbatim>\<open>authHeader && authHeader.split(' ')[1]\<close>, a falsy result being no token.\<close>

definition bearer_token :: "jsstring option \<Rightarrow> jsstring option" where
  "bearer_token authHeader =
     (case authHeader of
        None \<Rightarrow> None
      | Some h \<Rightarrow>
          if h = [] then None
          else (case split 0x20 h of
                  _ # t # _ \<Rightarrow> (if t = [] then None else Some t)
                | _ \<Rightarrow> None))"

definition authenticateToken :: "env \<Rightarrow> request \<Rightarrow> world \<Rightarrow> mw" where
  "authenticateToken env req w =
     (case bearer_token (header req ''authorization'') of
        None \<Rightarrow> Respond (json_message 401 (js ''Access token required'')) w
      | Some token \<Rightarrow>
          if \<not> jwt_verify env token then Respond (json_message 403 (js ''Invalid token'')) w
          else Next w)"

text \<open>\<^verbatim>\<open>a || b\<close> on optional strings: \<open>b\<close> when \<open>a\<close> is undefined or empty.\<close>

definition or_else :: "jsstring option \<Rightarrow> jsstring option \<Rightarrow> jsstring option" where
  "or_else a b = (case a of None \<Rightarrow> b | Some s \<Rightarrow> if s = [] then b else Some s)"

definition trackVisitor :: "env \<Rightarrow> request \<Rightarrow> world \<Rightarrow> mw" where
  "trackVisitor env req w =
     (let ipAddress = or_else (ip req) (remoteAddress req);
          userAgent = header req ''User-Agent'';
          referrer = header req ''Referrer''
      in if \<not> visitor_findOne_ok env then Next w
         else
           (case findOne (\<lambda>v. v_ipAddress v = ipAddress) (visitors w) of
              Some i \<Rightarrow>
                (let found = visitors w ! i;
                     visitor = found\<lparr>v_isReturningVisitor := True, v_lastVisit := now env,
                                 v_visitedPages := v_visitedPages found @
                                   [\<lparr>page = originalUrl req, timestamp = now env\<rparr>]\<rparr>
                 in case Visitor_save env (Some i) visitor w of
                      Inl e \<Rightarrow> Next w
                    | Inr w' \<Rightarrow> Next w')
            | None \<Rightarrow>
                (let visitor = new_Visitor env ipAddress userAgent referrer
                                 [\<lparr>page = originalUrl req, timestamp = now env\<rparr>]
                 in case Visitor_save env None visitor w of
                      Inl e \<Rightarrow> Next w
                    | Inr w' \<Rightarrow> Next w')))"

section \<open>The contact form\<close>

text \<open>
  The two messages. The source obtains its transporter from
  \<^verbatim>\<open>nodemailer.createTransporter\<close>; the model takes a transport as given.
\<close>

definition mailOptions_html :: "jsstring \<Rightarrow> jsstring \<Rightarrow> jsstring \<Rightarrow> jsstring \<Rightarrow> jsstring \<Rightarrow> jsstring \<Rightarrow> jsstring \<Rightarrow> jsstring" where
  \<open>mailOptions_html name email subject message ipAddress userAgent ts =
     js ''
                <div style="font-family: Arial, sans-serif; max-width: 600px; margin: 0 auto;">
                    <h2 style="color: #667eea;">New Contact Form Submission</h2>
                    <div style="background: #f8f9fa; padding: 20px; border-radius: 10px; margin: 20px 0;">
                        <h3 style="color: #333; margin-bottom: 15px;">Contact Details:</h3>
                        <p><strong>Name:</strong> '' @
     name @
     js ''</p>
                        <p><strong>Email:</strong> '' @
     email @
     js ''</p>
                        <p><strong>Subject:</strong> '' @
     subject @
     js ''</p>
                    </div>
                    <div style="background: #fff; padding: 20px; border: 1px solid #e9ecef; border-radius: 10px;">
                        <h3 style="color: #333; margin-bottom: 15px;">Message:</h3>
                        <p style="line-height: 1.6;">'' @
     message @
     js ''</p>
                    </div>
                    <div style="margin-top: 20px; padding: 15px; background: #e7f3ff; border-radius: 5px;">
                        <small style="color: #666;">
                            <strong>IP Address:</strong> '' @
     ipAddress @
     js ''<br>
                            <strong>User Agent:</strong> '' @
     userAgent @
     js ''<br>
                            <strong>Timestamp:</strong> '' @
     ts @
     js ''
                        </small>
                    </div>
                </div>
            ''\<close>

definition autoReplyOptions_html :: "jsstring \<Rightarrow> jsstring \<Rightarrow> jsstring \<Rightarrow> jsstring" where
  \<open>autoReplyOptions_html name subject message =
     js ''
                <div style="font-family: Arial, sans-serif; max-width: 600px; margin: 0 auto;">
                    <h2 style="color: #667eea;">Thank you for reaching out!</h2>
                    <p>Hi '' @
     name @
     js '',</p>
                    <p>Thank you for your message. I've received your inquiry about "'' @
     subject @
     js ''" and will get back to you as soon as possible.</p>
                    <p>In the meantime, feel free to connect with me on:</p>
                    <ul>
                        <li><a href="https://www.linkedin.com/in/sujal-javeri-b50638282" style="color: #667eea;">LinkedIn</a></li>
                        <li><a href="https://instagram.com/sujal_javeri" style="color: #667eea;">Instagram</a></li>
                    </ul>
                    <p>Best regards,<br>Sujal Javeri</p>
                    <div style="margin-top: 30px; padding: 20px; background: #f8f9fa; border-radius: 10px;">
                        <h3 style="color: #333;">Your Message:</h3>
                        <p style="font-style: italic;">"'' @
     message @
     js ''"</p>
                    </div>
                </div>
            ''\<close>

definition mailOptions :: "env \<Rightarrow> request \<Rightarrow> mail" where
  "mailOptions env req =
     \<lparr>m_from = EMAIL_USER env,
      m_to = js ''sujal309206@gmail.com'',
      m_subject = js ''Portfolio Contact: '' @ ToString (body req ''subject''),
      m_html = mailOptions_html (ToString (body req ''name'')) (ToString (body req ''email''))
                 (ToString (body req ''subject'')) (ToString (body req ''message''))
                 (interpolate (ip req)) (interpolate (header req ''User-Agent''))
                 (toLocaleString env (now env))\<rparr>"

definition autoReplyOptions :: "env \<Rightarrow> request \<Rightarrow> mail" where
  "autoReplyOptions env req =
     \<lparr>m_from = EMAIL_USER env,
      m_to = ToString (body req ''email''),
      m_subject = js ''Thank you for contacting Sujal Javeri'',
      m_html = autoReplyOptions_html (ToString (body req ''name''))
                 (ToString (body req ''subject'')) (ToString (body req ''message''))\<rparr>"

definition failed_to_send :: response where
  "failed_to_send = json_message 500 (js ''Failed to send message. Please try again later.'')"

definition contact_handler :: "env \<Rightarrow> request \<Rightarrow> world \<Rightarrow> response \<times> world" where
  "contact_handler env req w =
     (let name = body req ''name''; email = body req ''email'';
          subject = body req ''subject''; message = body req ''message''
      in if \<not> truthy name \<or> \<not> truthy email \<or> \<not> truthy subject \<or> \<not> truthy message
         then (json_message 400 (js ''All fields are required''), w)
         else if \<not> regex_test emailRegex (ToString email)
         then (json_message 400 (js ''Invalid email format''), w)
         else
           (case (call_trim name, call_trim email, call_trim subject, call_trim message) of
              (Inr n, Inr e, Inr s, Inr m) \<Rightarrow>
                (let contact = new_Contact env n (toLowerCase (unicode_toLowerCase env) e) s m
                                 (ip req)
                                 (header req ''User-Agent'')
                 in case Contact_save env contact w of
                      Inl err \<Rightarrow> (failed_to_send, w)
                    | Inr w1 \<Rightarrow>
                        (case sendMail (mailOptions_ok env) (mailOptions env req) w1 of
                           (False, w2) \<Rightarrow> (failed_to_send, w2)
                         | (True, w2) \<Rightarrow>
                             (case sendMail (autoReplyOptions_ok env)
                                     (autoReplyOptions env req) w2 of
                                (False, w3) \<Rightarrow> (failed_to_send, w3)
                              | (True, w3) \<Rightarrow>
                                  (json_message 200
                                     (js ''Message sent successfully! You will receive a confirmation email shortly.''),
                                   w3))))
            | _ \<Rightarrow> (failed_to_send, w)))"

text \<open>The route after its rate limiter: the tracker, then the handler.\<close>

definition contact_pipeline :: "env \<Rightarrow> request \<Rightarrow> world \<Rightarrow> response \<times> world" where
  "contact_pipeline env req w =
     (case trackVisitor env req w of
        Next w1 \<Rightarrow> contact_handler env req w1
      | Respond r w1 \<Rightarrow> (r, w1))"

section \<open>Blog posts and contact management\<close>

definition blog_slug_handler :: "env \<Rightarrow> request \<Rightarrow> world \<Rightarrow> response \<times> world" where
  "blog_slug_handler env req w =
     (if \<not> blog_findOne_ok env then (json_message 500 (js ''Failed to fetch blog post''), w)
      else
        (case findOne (\<lambda>b. b_slug b = params req ''slug'') (blogs w) of
           None \<Rightarrow> (json_message 404 (js ''Blog post not found''), w)
         | Some i \<Rightarrow>
             (let found = blogs w ! i;
                  blog = found\<lparr>b_views := add_one (b_views found)\<rparr>
              in case Blog_save env i blog w of
                   Inl e \<Rightarrow> (json_message 500 (js ''Failed to fetch blog post''), w)
                 | Inr w' \<Rightarrow> (\<lparr>status_code = 200, content = Json_blog blog\<rparr>, w'))))"

definition blog_slug_route :: "env \<Rightarrow> request \<Rightarrow> world \<Rightarrow> response \<times> world" where
  "blog_slug_route env req w =
     (case trackVisitor env req w of
        Next w1 \<Rightarrow> blog_slug_handler env req w1
      | Respond r w1 \<Rightarrow> (r, w1))"

definition patch_contact_handler :: "env \<Rightarrow> request \<Rightarrow> world \<Rightarrow> response \<times> world" where
  "patch_contact_handler env req w =
     (let status = body req ''status'';
          readAt = (if status = Str (js ''read'') then Set_to (Some (now env))
                    else undefined_key env);
          repliedAt = (if status = Str (js ''replied'') then Set_to (Some (now env))
                       else undefined_key env)
      in case Contact_findByIdAndUpdate env (params req ''id'') status readAt repliedAt w of
           Inl e \<Rightarrow> (json_message 500 (js ''Failed to update contact''), w)
         | Inr (None, w') \<Rightarrow> (json_message 404 (js ''Contact not found''), w')
         | Inr (Some contact, w') \<Rightarrow>
             (\<lparr>status_code = 200,
               content = Json_contact (js ''Contact updated successfully'') contact\<rparr>, w'))"

definition patch_contact_route :: "env \<Rightarrow> request \<Rightarrow> world \<Rightarrow> response \<times> world" where
  "patch_contact_route env req w =
     (case authenticateToken env req w of
        Next w1 \<Rightarrow> patch_contact_handler env req w1
      | Respond r w1 \<Rightarrow> (r, w1))"

section \<open>The trace of one request\<close>

definition new_events :: "world \<Rightarrow> world \<Rightarrow> event list" where
  "new_events w w' = drop (length (trace w)) (trace w')"

fun is_dispatch :: "event \<Rightarrow> bool" where
  "is_dispatch (Contact_saved c) = False"
| "is_dispatch (Mail_sent m) = True"
| "is_dispatch (Mail_failed m) = True"

fun is_failed_dispatch :: "event \<Rightarrow> bool" where
  "is_failed_dispatch (Mail_failed m) = True"
| "is_failed_dispatch e = False"

section \<open>The rate limiter of the contact route\<close>

record limiter_options =
  windowMs :: nat
  max_hits :: nat
  message :: jsstring

definition contactLimiter :: limiter_options where
  "contactLimiter =
     \<lparr>windowMs = 60 * 60 * 1000, max_hits = 5,
      message = js ''Too many contact form submissions, please try again later.''\<rparr>"

text \<open>The limiter's store: for a key (the request's address), its hits and reset time.\<close>

type_synonym hit_store = "jsstring option \<Rightarrow> (nat \<times> nat) option"

text \<open>
  Modelled from the spec: the function \<^verbatim>\<open>rateLimit\<close> of the package
  express-rate-limit, which the repository calls and does not contain. A limiter "caps
  contact submissions per address over a 1-hour window": the first hit of an address
  opens a window of \<open>windowMs\<close>, every hit inside the window is counted, and a hit
  that brings the count above \<open>max_hits\<close> is refused. The result is whether the
  request may pass, and the store after the hit.
\<close>

definition rateLimit ::
  "limiter_options \<Rightarrow> nat \<Rightarrow> jsstring option \<Rightarrow> hit_store \<Rightarrow> bool \<times> hit_store" where
  "rateLimit opts t key store =
     (let (hits, resetTime) =
            (case store key of
               None \<Rightarrow> (1, t + windowMs opts)
             | Some (n, r) \<Rightarrow> if t < r then (n + 1, r) else (1, t + windowMs opts))
      in (hits \<le> max_hits opts, store(key \<mapsto> (hits, resetTime))))"

definition contact_route ::
  "env \<Rightarrow> request \<Rightarrow> hit_store \<times> world \<Rightarrow> response \<times> (hit_store \<times> world)" where
  "contact_route env req sw =
     (case rateLimit contactLimiter (now env) (ip req) (fst sw) of
        (True, store') \<Rightarrow>
          (case contact_pipeline env req (snd sw) of (r, w') \<Rightarrow> (r, (store', w')))
      | (False, store') \<Rightarrow>
          (\<lparr>status_code = 429, content = Text_message (message contactLimiter)\<rparr>,
           (store', snd sw)))"

text \<open>Requests served one after the other, each with its own environment.\<close>

fun serve ::
  "(env \<times> request) list \<Rightarrow> hit_store \<times> world \<Rightarrow> response list \<times> (hit_store \<times> world)" where
  "serve [] sw = ([], sw)"
| "serve ((env, req) # rest) sw =
     (case contact_route env req sw of
        (r, sw1) \<Rightarrow> (case serve rest sw1 of (rs, sw2) \<Rightarrow> (r # rs, sw2)))"

section \<open>Example inputs\<close>

text \<open>
  The submission of the specification's example, a request carrying it, an environment
  in which every collaborator succeeds, and an empty database. The strings of the
  examples are ASCII, so the conversion outside ASCII is never consulted; it is the
  identity here.
\<close>

definition example_body :: "string \<Rightarrow> jsval" where
  "example_body k =
     (if k = ''name'' then Str (js ''A'')
      else if k = ''email'' then Str (js ''a@b.com'')
      else if k = ''subject'' then Str (js ''Hi'')
      else if k = ''message'' then Str (js ''Test'')
      else Undefined)"

definition example_request :: request where
  "example_request =
     \<lparr>ip = Some (js ''203.0.113.7''), remoteAddress = Some (js ''203.0.113.7''),
      header = (\<lambda>h. if h = ''User-Agent'' then Some (js ''curl/8.0'') else None),
      originalUrl = js ''/api/contact'', body = example_body, params = (\<lambda>k. [])\<rparr>"

definition example_env :: env where
  "example_env =
     \<lparr>EMAIL_USER = Some (js ''portfolio@example.com''), now = 1700000000000,
      toLocaleString = (\<lambda>t. js ''11/14/2023, 10:13:20 PM''),
      unicode_toLowerCase = (\<lambda>s. s),
      visitor_findOne_ok = True, visitor_save_ok = True, contact_save_ok = True,
      mailOptions_ok = True, autoReplyOptions_ok = True, blog_findOne_ok = True,
      blog_save_ok = True, contact_update_ok = True,
      jwt_verify = (\<lambda>t. t = js ''signed.admin.token''),
      cast_ObjectId = (\<lambda>s. if s = js ''65533e4f8a1b2c3d4e5f6a7b'' then Some 0 else None),
      omitUndefined = True\<rparr>"

definition empty_world :: world where
  "empty_world = \<lparr>contacts = [], visitors = [], blogs = [], trace = []\<rparr>"

text \<open>
  A stored contact, and an administrator's request that sets its status: a bearer token
  that verifies, the id of the first contact, and a status outside the schema's list.
\<close>

definition stored_contact :: contact where
  "stored_contact =
     \<lparr>c_name = js ''A'', c_email = js ''a@b.com'', c_subject = js ''Hi'',
      c_message = js ''Test'', c_ipAddress = Some (js ''203.0.113.7''),
      c_userAgent = Some (js ''curl/8.0''), c_status = Some (js ''new''),
      c_createdAt = 1700000000000, c_readAt = None, c_repliedAt = None\<rparr>"

definition patch_request :: request where
  "patch_request =
     \<lparr>ip = Some (js ''203.0.113.7''), remoteAddress = Some (js ''203.0.113.7''),
      header = (\<lambda>h. if h = ''authorization'' then Some (js ''Bearer signed.admin.token'')
                     else None),
      originalUrl = js ''/api/admin/contacts/65533e4f8a1b2c3d4e5f6a7b'',
      body = (\<lambda>k. if k = ''status'' then Str (js ''bogus'') else Undefined),
      params = (\<lambda>k. if k = ''id'' then js ''65533e4f8a1b2c3d4e5f6a7b'' else [])\<rparr>"

text \<open>A published post, and a request for it by its slug.\<close>

definition stored_blog :: blog where
  "stored_blog =
     \<lparr>b_title = js ''Hello'', b_slug = js ''hello'', b_content = js ''First post'',
      b_published = True, b_views = 41, b_likes = 0\<rparr>"

definition blog_request :: request where
  "blog_request =
     \<lparr>ip = Some (js ''203.0.113.7''), remoteAddress = Some (js ''203.0.113.7''),
      header = (\<lambda>h. None), originalUrl = js ''/api/blog/hello'',
      body = (\<lambda>k. Undefined),
      params = (\<lambda>k. if k = ''slug'' then js ''hello'' else [])\<rparr>"

text \<open>The visitor record that the example request leaves on its first visit.\<close>

definition first_visit :: visitor where
  "first_visit =
     \<lparr>v_ipAddress = Some (js ''203.0.113.7''), v_userAgent = Some (js ''curl/8.0''),
      v_referrer = None,
      v_visitedPages = [\<lparr>page = js ''/api/contact'', timestamp = 1700000000000\<rparr>],
      v_isReturningVisitor = False, v_createdAt = 1700000000000,
      v_lastVisit = 1700000000000\<rparr>"


section \<open>Strings\<close>

lemma of_char_less: "(of_char c :: nat) < 256"
  by (cases c) simp

lemma of_char_cu_inj: "(of_char c :: cu) = of_char d \<longleftrightarrow> c = d"
proof
  assume h: "(of_char c :: cu) = of_char d"
  have "(of_nat (of_char c) :: cu) = of_nat (of_char d)"
    using h by (simp only: of_nat_of_char)
  moreover have "(of_char x :: nat) < 2 ^ LENGTH(16)" for x
    by (rule order_less_trans [OF of_char_less]) simp
  ultimately have "(of_char c :: nat) = of_char d"
    by (simp add: word_of_nat_eq_iff take_bit_nat_eq_self)
  then show "c = d" by simp
qed simp

lemma js_eq_iff: "js a = js b \<longleftrightarrow> a = b"
  unfolding js_def
  by (rule inj_map_eq_map) (simp add: inj_on_def of_char_cu_inj)

lemma js_Nil_iff: "js a = [] \<longleftrightarrow> a = []"
  by (simp add: js_def)

lemma dropWhile_fixed: "(xs \<noteq> [] \<Longrightarrow> \<not> P (hd xs)) \<Longrightarrow> dropWhile P xs = xs"
  by (cases xs) auto

lemma rev_dropWhile_rev_prefix:
  "\<exists>v. xs = rev (dropWhile P (rev xs)) @ v"
proof -
  have "rev (dropWhile P (rev xs)) @ rev (takeWhile P (rev xs)) =
        rev (takeWhile P (rev xs) @ dropWhile P (rev xs))"
    by (simp only: rev_append)
  also have "\<dots> = rev (rev xs)" by (simp only: takeWhile_dropWhile_id)
  also have "\<dots> = xs" by simp
  finally have "xs = rev (dropWhile P (rev xs)) @ rev (takeWhile P (rev xs))" by simp
  then show ?thesis by blast
qed

lemma trim_hd: "trim s \<noteq> [] \<Longrightarrow> \<not> isWhiteSpace (hd (trim s))"
proof -
  assume ne: "trim s \<noteq> []"
  define t where "t = dropWhile isWhiteSpace s"
  obtain v where v: "t = trim s @ v"
    using rev_dropWhile_rev_prefix [of t isWhiteSpace] by (auto simp: trim_def t_def)
  then have "t \<noteq> []" using ne by auto
  then have "\<not> isWhiteSpace (hd t)" unfolding t_def by (rule hd_dropWhile)
  moreover have "hd t = hd (trim s)" using v ne by simp
  ultimately show ?thesis by simp
qed

lemma trim_last: "trim s \<noteq> [] \<Longrightarrow> \<not> isWhiteSpace (last (trim s))"
proof -
  assume ne: "trim s \<noteq> []"
  define t where "t = dropWhile isWhiteSpace s"
  have r: "rev (trim s) = dropWhile isWhiteSpace (rev t)" by (simp add: trim_def t_def)
  then have "dropWhile isWhiteSpace (rev t) \<noteq> []" using ne by (metis rev_is_Nil_conv)
  then have "\<not> isWhiteSpace (hd (dropWhile isWhiteSpace (rev t)))" by (rule hd_dropWhile)
  then show ?thesis using r ne by (simp add: hd_rev [symmetric] del: rev_rev_ident)
qed

lemma trim_fixed:
  "(s \<noteq> [] \<Longrightarrow> \<not> isWhiteSpace (hd s) \<and> \<not> isWhiteSpace (last s)) \<Longrightarrow> trim s = s"
proof -
  assume h: "s \<noteq> [] \<Longrightarrow> \<not> isWhiteSpace (hd s) \<and> \<not> isWhiteSpace (last s)"
  have a: "dropWhile isWhiteSpace s = s" using h by (intro dropWhile_fixed) simp
  have b: "dropWhile isWhiteSpace (rev s) = rev s"
    using h by (intro dropWhile_fixed) (simp add: hd_rev)
  show ?thesis by (simp add: trim_def a b)
qed

lemma trim_idem: "trim (trim s) = trim s"
  by (rule trim_fixed) (simp add: trim_hd trim_last)

lemma trim_Nil: "trim [] = []"
  by (simp add: trim_def)

lemma trim_no_space: "\<not> list_ex isWhiteSpace s \<Longrightarrow> trim s = s"
  by (rule trim_fixed) (auto simp: list_ex_iff)

lemma trim_all_space: "list_all isWhiteSpace s \<Longrightarrow> trim s = []"
proof -
  assume "list_all isWhiteSpace s"
  then have "dropWhile isWhiteSpace s = []" by (simp add: list_all_iff)
  then show ?thesis unfolding trim_def by (simp only: dropWhile.simps rev.simps)
qed

lemma unat_upper:
  assumes "0x41 \<le> c" "c \<le> (0x5A::cu)"
  shows "65 \<le> unat c \<and> unat c \<le> 90 \<and> unat (c + 0x20) = unat c + 32"
proof -
  have a: "65 \<le> unat c" "unat c \<le> 90"
    using assms by (simp_all add: word_le_nat_alt)
  have "unat c + unat (0x20::cu) < 2 ^ LENGTH(16)" using a by simp
  then have "unat (c + 0x20) = unat c + unat (0x20::cu)" by (simp only: unat_add_lem)
  then show ?thesis using a by simp
qed

lemma isWhiteSpace_unat:
  "isWhiteSpace c \<longleftrightarrow>
     unat c \<in> {0x09, 0x0A, 0x0B, 0x0C, 0x0D, 0x20, 0xA0, 0x1680, 0x2028, 0x2029, 0x202F,
               0x205F, 0x3000, 0xFEFF} \<or> (0x2000 \<le> unat c \<and> unat c \<le> 0x200A)"
  by (auto simp: isWhiteSpace_def word_le_nat_alt word_unat_eq_iff)

lemma lower_idem: "lower (lower c) = lower c"
proof (cases "0x41 \<le> c \<and> c \<le> 0x5A")
  case True
  then have "\<not> (0x41 \<le> c + 0x20 \<and> c + 0x20 \<le> 0x5A)"
    using unat_upper [of c] by (simp add: word_le_nat_alt)
  then show ?thesis using True by (simp add: lower_def)
next
  case False
  then show ?thesis by (simp add: lower_def)
qed

lemma isWhiteSpace_lower: "isWhiteSpace (lower c) \<longleftrightarrow> isWhiteSpace c"
proof (cases "0x41 \<le> c \<and> c \<le> 0x5A")
  case True
  then have u: "65 \<le> unat c" "unat c \<le> 90" "unat (c + 0x20) = unat c + 32"
    using unat_upper [of c] by simp_all
  have "\<not> isWhiteSpace c"
    using u by (auto simp: isWhiteSpace_unat)
  moreover have "\<not> isWhiteSpace (c + 0x20)"
    using u by (auto simp: isWhiteSpace_unat)
  ultimately show ?thesis using True by (simp add: lower_def)
next
  case False
  then show ?thesis by (auto simp: lower_def)
qed

lemma dropWhile_space_lower:
  "dropWhile isWhiteSpace (map lower s) = map lower (dropWhile isWhiteSpace s)"
  by (induction s) (simp_all add: isWhiteSpace_lower)

lemma trim_map_lower: "trim (map lower s) = map lower (trim s)"
  by (simp add: trim_def dropWhile_space_lower rev_map)

lemma lower_ascii: "c < 0x80 \<Longrightarrow> lower c < 0x80"
proof (cases "0x41 \<le> c \<and> c \<le> 0x5A")
  case True
  then have "unat (c + 0x20) = unat c + 32" "unat c \<le> 90"
    using unat_upper [of c] by simp_all
  then have "c + 0x20 < 0x80" by (simp add: word_less_nat_alt)
  then show ?thesis using True by (simp add: lower_def)
next
  case False
  assume "c < 0x80"
  moreover have "lower c = c" using False by (auto simp: lower_def)
  ultimately show ?thesis by simp
qed

lemma isASCII_map_lower: "isASCII s \<Longrightarrow> isASCII (map lower s)"
  by (simp add: isASCII_def list_all_iff lower_ascii)

lemma toLowerCase_ascii: "isASCII s \<Longrightarrow> toLowerCase u s = map lower s"
  by (simp add: toLowerCase_def)

lemma toLowerCase_ascii_twice: "isASCII s \<Longrightarrow> toLowerCase u (toLowerCase u s) = map lower s"
  by (simp add: toLowerCase_ascii isASCII_map_lower lower_idem)

section \<open>The regular expression against the pattern in words\<close>

lemma set_plus_rests:
  "set (plus_rests a s) = {r. \<exists>u. u \<noteq> [] \<and> s = u @ r \<and> list_all (atom_matches a) u}"
proof (induction s)
  case Nil
  then show ?case by simp
next
  case (Cons c cs)
  show ?case
  proof (cases "atom_matches a c")
    case True
    have step: "(\<exists>u. u \<noteq> [] \<and> c # cs = u @ r \<and> list_all (atom_matches a) u) \<longleftrightarrow>
            (r = cs \<or> (\<exists>v. v \<noteq> [] \<and> cs = v @ r \<and> list_all (atom_matches a) v))" for r
    proof
      assume "\<exists>u. u \<noteq> [] \<and> c # cs = u @ r \<and> list_all (atom_matches a) u"
      then obtain u where u: "u \<noteq> []" "c # cs = u @ r" "list_all (atom_matches a) u" by blast
      then obtain v where v: "u = c # v" by (cases u) auto
      show "r = cs \<or> (\<exists>v. v \<noteq> [] \<and> cs = v @ r \<and> list_all (atom_matches a) v)"
        using u v by (cases v) auto
    next
      assume "r = cs \<or> (\<exists>v. v \<noteq> [] \<and> cs = v @ r \<and> list_all (atom_matches a) v)"
      then show "\<exists>u. u \<noteq> [] \<and> c # cs = u @ r \<and> list_all (atom_matches a) u"
      proof
        assume "r = cs"
        then have "[c] \<noteq> [] \<and> c # cs = [c] @ r \<and> list_all (atom_matches a) [c]"
          using True by simp
        then show ?thesis by blast
      next
        assume "\<exists>v. v \<noteq> [] \<and> cs = v @ r \<and> list_all (atom_matches a) v"
        then obtain v where "v \<noteq> []" "cs = v @ r" "list_all (atom_matches a) v" by blast
        then have "c # v \<noteq> [] \<and> c # cs = (c # v) @ r \<and> list_all (atom_matches a) (c # v)"
          using True by simp
        then show ?thesis by blast
      qed
    qed
    then show ?thesis using True Cons.IH by auto
  next
    case False
    have "\<not> list_all (atom_matches a) u" if "u \<noteq> []" "c # cs = u @ r" for r u
      using that False by (cases u) auto
    then show ?thesis using False by auto
  qed
qed

lemma email_atom: "atom_matches (NegClass [Esc_s, Lit 0x40]) = email_char"
  by (rule ext) (simp add: email_char_def)

lemma set_single_rests: "set (piece_rests (Single (Lit_char a)) s) = {r. s = a # r}"
  by (cases s) auto

lemma emailRegex_refines: "regex_test emailRegex s \<longleftrightarrow> local_at_domain_tld s"
  unfolding regex_test_def emailRegex_def local_at_domain_tld_def
  apply (simp add: set_plus_rests set_single_rests email_atom del: piece_rests.simps(1,2))
  apply (rule iffI)
   apply (elim exE conjE bexE)
   apply clarsimp
   apply blast
  apply (elim exE conjE)
  apply clarsimp
  apply blast
  done

lemma no_at_no_match: "0x40 \<notin> set s \<Longrightarrow> \<not> local_at_domain_tld s"
  by (auto simp: local_at_domain_tld_def)

lemma domain_needs_dot:
  assumes "local_at_domain_tld s"
  shows "0x2E \<in> set (tl (dropWhile (\<lambda>c. c \<noteq> 0x40) s))"
proof -
  from assms obtain l d t where s: "s = l @ [0x40] @ d @ [0x2E] @ t" and l: "list_all email_char l"
    unfolding local_at_domain_tld_def by blast
  have "\<And>x. x \<in> set l \<Longrightarrow> x \<noteq> 0x40"
    using l by (auto simp: list_all_iff email_char_def)
  then have "dropWhile (\<lambda>c. c \<noteq> 0x40) s = [0x40] @ d @ [0x2E] @ t"
    unfolding s by (simp add: dropWhile_append2)
  then show ?thesis by simp
qed

lemma email_char_not_space: "list_all email_char u \<Longrightarrow> \<not> list_ex isWhiteSpace u"
  by (auto simp: list_all_iff list_ex_iff email_char_def)

lemma regex_email_no_space:
  assumes "regex_test emailRegex e"
  shows "e \<noteq> [] \<and> \<not> list_ex isWhiteSpace e"
proof -
  from assms obtain l d t where e: "e = l @ [0x40] @ d @ [0x2E] @ t"
    and p: "list_all email_char l" "list_all email_char d" "list_all email_char t"
    unfolding emailRegex_refines local_at_domain_tld_def by blast
  have "\<not> isWhiteSpace 0x40" "\<not> isWhiteSpace 0x2E" by (simp_all add: isWhiteSpace_def)
  then show ?thesis using p [THEN email_char_not_space] unfolding e by simp
qed

lemma stored_email_ascii:
  assumes "regex_test emailRegex e" "isASCII e"
  shows "trim (toLowerCase u (toLowerCase u (trim e))) = map lower e"
    and "map lower e \<noteq> []"
proof -
  have t: "trim e = e" using regex_email_no_space [OF assms(1)] by (simp add: trim_no_space)
  show "trim (toLowerCase u (toLowerCase u (trim e))) = map lower e"
    using assms(2) by (simp add: t toLowerCase_ascii_twice trim_map_lower)
  show "map lower e \<noteq> []" using regex_email_no_space [OF assms(1)] by simp
qed

section \<open>The contact handler\<close>

lemma trackVisitor_Next:
  "\<exists>w'. trackVisitor env req w = Next w' \<and> contacts w' = contacts w \<and> blogs w' = blogs w \<and>
        trace w' = trace w"
  by (auto simp: trackVisitor_def Visitor_save_def Let_def split: option.splits sum.splits)

lemma status_new_valid: "js ''new'' \<in> set status_enum"
  by (simp add: status_enum_def)

lemma handler_validated:
  assumes b: "body req ''name'' = Str n" "body req ''email'' = Str e"
             "body req ''subject'' = Str s" "body req ''message'' = Str m"
    and v: "regex_test emailRegex e" "trim n \<noteq> []" "trim s \<noteq> []" "trim m \<noteq> []"
    and em: "trim (toLowerCase (unicode_toLowerCase env)
               (toLowerCase (unicode_toLowerCase env) (trim e))) \<noteq> []"
    and ok: "contact_save_ok env"
  shows "contact_handler env req w =
     (if mailOptions_ok env \<and> autoReplyOptions_ok env
      then json_message 200
             (js ''Message sent successfully! You will receive a confirmation email shortly.'')
      else failed_to_send,
      w\<lparr>contacts := contacts w @
            [\<lparr>c_name = trim n,
              c_email = trim (toLowerCase (unicode_toLowerCase env)
                          (toLowerCase (unicode_toLowerCase env) (trim e))),
              c_subject = trim s, c_message = trim m, c_ipAddress = ip req,
              c_userAgent = header req ''User-Agent'', c_status = Some (js ''new''),
              c_createdAt = now env, c_readAt = None, c_repliedAt = None\<rparr>],
         trace := trace w @
            Contact_saved
              \<lparr>c_name = trim n,
               c_email = trim (toLowerCase (unicode_toLowerCase env)
                           (toLowerCase (unicode_toLowerCase env) (trim e))),
               c_subject = trim s, c_message = trim m, c_ipAddress = ip req,
               c_userAgent = header req ''User-Agent'', c_status = Some (js ''new''),
               c_createdAt = now env, c_readAt = None, c_repliedAt = None\<rparr> #
            (if mailOptions_ok env
             then [Mail_sent (mailOptions env req),
                   if autoReplyOptions_ok env then Mail_sent (autoReplyOptions env req)
                   else Mail_failed (autoReplyOptions env req)]
             else [Mail_failed (mailOptions env req)])\<rparr>)"
proof -
  have ne: "n \<noteq> []" "s \<noteq> []" "m \<noteq> []" "e \<noteq> []"
    using v regex_email_no_space [of e] by (auto simp: trim_Nil)
  show ?thesis
    using ne v ok em
    by (simp add: contact_handler_def b Let_def new_Contact_def Contact_save_def
        contact_valid_def sendMail_def trim_idem status_new_valid)
qed

lemma status_code_simps:
  "status_code (json_message c msg) = c" "status_code failed_to_send = 500"
  by (simp_all add: json_message_def failed_to_send_def)

lemma required_message_differs:
  "json_message 400 (js ''Invalid email format'') \<noteq> json_message 400 (js ''All fields are required'')"
  "failed_to_send \<noteq> json_message 400 (js ''All fields are required'')"
  "json_message 200 x \<noteq> json_message 400 y"
  by (simp_all add: json_message_def failed_to_send_def js_eq_iff)

lemmas example_defs = example_request_def example_env_def empty_world_def example_body_def

lemma example_email_matches:
  "regex_test emailRegex (js ''a@b.com'')" "regex_test emailRegex (js ''A@B.com'')"
  "\<not> regex_test emailRegex (js ''ab.com'')"
  by (simp_all add: regex_test_def emailRegex_def js_def isWhiteSpace_def)

lemma example_trims:
  "trim (js ''A'') = js ''A''" "trim (js ''Hi'') = js ''Hi''" "trim (js ''Test'') = js ''Test''"
  "trim (js ''a@b.com'') = js ''a@b.com''" "trim (js ''   '') = []"
  "trim (js '' A '') = js ''A''" "trim (js ''A@B.com'') = js ''A@B.com''"
  "trim (js '' Hi '') = js ''Hi''"
  by (simp_all add: trim_def js_def isWhiteSpace_def)

lemma example_lower:
  "toLowerCase u (js ''a@b.com'') = js ''a@b.com''" "toLowerCase u (js ''A@B.com'') = js ''a@b.com''"
  by (simp_all add: toLowerCase_def isASCII_def lower_def js_def)

subsection \<open>Persistence before dispatch\<close>

text \<open>
  Claim C1. In every run of the contact handler the Contact record is written before any
  mail is dispatched: if the run dispatches a mail at all, the first thing it did was to
  save one Contact record, and that record is in the collection afterwards. If a dispatch
  fails, the response is the 500 "try again later" response and exactly one record has
  been added. What is stored does not depend on how the sends turn out.
\<close>

theorem contact_persisted_before_dispatch:
  "trace (snd (contact_handler env req w)) =
     trace w @ new_events w (snd (contact_handler env req w)) \<and>
   (list_ex is_dispatch (new_events w (snd (contact_handler env req w))) \<longrightarrow>
      (\<exists>c rest. new_events w (snd (contact_handler env req w)) = Contact_saved c # rest \<and>
         list_all is_dispatch rest \<and>
         contacts (snd (contact_handler env req w)) = contacts w @ [c])) \<and>
   (list_ex is_failed_dispatch (new_events w (snd (contact_handler env req w))) \<longrightarrow>
      fst (contact_handler env req w) = failed_to_send \<and>
      (\<exists>c. contacts (snd (contact_handler env req w)) = contacts w @ [c])) \<and>
   contacts (snd (contact_handler (env\<lparr>mailOptions_ok := a, autoReplyOptions_ok := b\<rparr>) req w))
     = contacts (snd (contact_handler env req w))"
  by (auto simp: contact_handler_def Contact_save_def sendMail_def new_events_def Let_def
        new_Contact_def
      split: sum.splits prod.splits if_splits)

theorem contact_persisted_before_dispatch_witness:
  "list_ex is_failed_dispatch
     (new_events empty_world
        (snd (contact_handler (example_env\<lparr>autoReplyOptions_ok := False\<rparr>) example_request
           empty_world))) \<and>
   fst (contact_handler (example_env\<lparr>autoReplyOptions_ok := False\<rparr>) example_request
          empty_world) = failed_to_send \<and>
   length (contacts (snd (contact_handler (example_env\<lparr>autoReplyOptions_ok := False\<rparr>)
      example_request empty_world))) = 1 \<and>
   contacts (snd (contact_handler (example_env\<lparr>autoReplyOptions_ok := False\<rparr>)
      example_request empty_world)) =
   contacts (snd (contact_handler example_env example_request empty_world))"
proof -
  let ?env = "example_env\<lparr>autoReplyOptions_ok := False\<rparr>"
  have run: "new_events empty_world (snd (contact_handler ?env example_request empty_world)) =
      [Contact_saved
         \<lparr>c_name = js ''A'', c_email = js ''a@b.com'', c_subject = js ''Hi'',
          c_message = js ''Test'', c_ipAddress = Some (js ''203.0.113.7''),
          c_userAgent = Some (js ''curl/8.0''), c_status = Some (js ''new''),
          c_createdAt = 1700000000000, c_readAt = None, c_repliedAt = None\<rparr>,
       Mail_sent (mailOptions ?env example_request),
       Mail_failed (autoReplyOptions ?env example_request)]"
    using handler_validated [of example_request "js ''A''" "js ''a@b.com''" "js ''Hi''"
        "js ''Test''" ?env empty_world]
    by (simp add: example_defs example_email_matches example_trims example_lower js_Nil_iff
        new_events_def)
  have fd: "list_ex is_failed_dispatch
      (new_events empty_world (snd (contact_handler ?env example_request empty_world)))"
    by (simp add: run)
  have one: "\<exists>c. contacts (snd (contact_handler ?env example_request empty_world)) = [c]"
    using contact_persisted_before_dispatch [where env = ?env and req = example_request
        and w = empty_world] fd
    by (simp add: empty_world_def)
  have r: "fst (contact_handler ?env example_request empty_world) = failed_to_send"
    using contact_persisted_before_dispatch [where env = ?env and req = example_request
        and w = empty_world] fd
    by blast
  have "contacts (snd (contact_handler (?env\<lparr>mailOptions_ok := True,
      autoReplyOptions_ok := True\<rparr>) example_request empty_world)) =
      contacts (snd (contact_handler ?env example_request empty_world))"
    using contact_persisted_before_dispatch [where env = ?env and req = example_request
        and w = empty_world and a = True and b = True]
    by blast
  then have same: "contacts (snd (contact_handler ?env example_request empty_world)) =
      contacts (snd (contact_handler example_env example_request empty_world))"
    by (simp add: example_env_def)
  show ?thesis using fd one r same by auto
qed

subsection \<open>Validation\<close>

text \<open>
  Claim C2. A submission in which name, email, subject or message is absent is answered
  by the handler with 400 "All fields are required" and the world is left as it was; seen
  from the route (tracker, then handler) no Contact record is created and no mail is
  dispatched.
\<close>

theorem missing_field_rejected:
  assumes "body req ''name'' = Undefined \<or> body req ''email'' = Undefined \<or>
           body req ''subject'' = Undefined \<or> body req ''message'' = Undefined"
  shows "contact_handler env req w = (json_message 400 (js ''All fields are required''), w) \<and>
         fst (contact_pipeline env req w) = json_message 400 (js ''All fields are required'') \<and>
         contacts (snd (contact_pipeline env req w)) = contacts w \<and>
         trace (snd (contact_pipeline env req w)) = trace w"
proof -
  have h: "contact_handler env req v = (json_message 400 (js ''All fields are required''), v)" for v
    using assms by (auto simp: contact_handler_def Let_def)
  obtain w' where w': "trackVisitor env req w = Next w'" "contacts w' = contacts w" "trace w' = trace w"
    using trackVisitor_Next by blast
  show ?thesis using h w' by (simp add: contact_pipeline_def)
qed

theorem missing_field_rejected_witness:
  "contact_handler example_env (example_request\<lparr>body := example_body(''subject'' := Undefined)\<rparr>)
     empty_world = (json_message 400 (js ''All fields are required''), empty_world) \<and>
   fst (contact_pipeline example_env
     (example_request\<lparr>body := example_body(''subject'' := Undefined)\<rparr>) empty_world) =
     json_message 400 (js ''All fields are required'') \<and>
   contacts (snd (contact_pipeline example_env
     (example_request\<lparr>body := example_body(''subject'' := Undefined)\<rparr>) empty_world)) = [] \<and>
   trace (snd (contact_pipeline example_env
     (example_request\<lparr>body := example_body(''subject'' := Undefined)\<rparr>) empty_world)) = []"
  using missing_field_rejected [of "example_request\<lparr>body := example_body(''subject'' := Undefined)\<rparr>"
      example_env empty_world]
  by (simp add: example_request_def empty_world_def)

text \<open>
  Claim C3. The e-mail check accepts exactly the strings of the form local@domain.tld; a
  string with no \<open>@\<close>, or with no dot after its \<open>@\<close>, is not accepted. A submission
  whose email is a string outside the pattern is answered with 400 and changes nothing;
  with the other fields present, an email inside the pattern is not answered with 400.
\<close>

theorem invalid_email_rejected:
  "(regex_test emailRegex s \<longleftrightarrow> local_at_domain_tld s) \<and>
   (0x40 \<notin> set s \<longrightarrow> \<not> regex_test emailRegex s) \<and>
   (0x2E \<notin> set (tl (dropWhile (\<lambda>c. c \<noteq> 0x40) s)) \<longrightarrow> \<not> regex_test emailRegex s) \<and>
   (body req ''email'' = Str s \<and> \<not> local_at_domain_tld s \<longrightarrow>
      status_code (fst (contact_handler env req w)) = 400 \<and>
      snd (contact_handler env req w) = w) \<and>
   (body req ''email'' = Str s \<and> local_at_domain_tld s \<and> truthy (body req ''name'') \<and>
    truthy (body req ''subject'') \<and> truthy (body req ''message'') \<longrightarrow>
      status_code (fst (contact_handler env req w)) \<noteq> 400)"
proof (intro conjI impI)
  show "regex_test emailRegex s \<longleftrightarrow> local_at_domain_tld s" by (rule emailRegex_refines)
  show "\<not> regex_test emailRegex s" if "0x40 \<notin> set s"
    using that no_at_no_match by (simp add: emailRegex_refines)
  show "\<not> regex_test emailRegex s" if "0x2E \<notin> set (tl (dropWhile (\<lambda>c. c \<noteq> 0x40) s))"
    using that domain_needs_dot by (auto simp: emailRegex_refines)
next
  assume h: "body req ''email'' = Str s \<and> \<not> local_at_domain_tld s"
  then have "\<not> regex_test emailRegex s" by (simp add: emailRegex_refines)
  then show "status_code (fst (contact_handler env req w)) = 400"
    and "snd (contact_handler env req w) = w"
    using h by (auto simp: contact_handler_def status_code_simps Let_def)
next
  assume h: "body req ''email'' = Str s \<and> local_at_domain_tld s \<and> truthy (body req ''name'') \<and>
    truthy (body req ''subject'') \<and> truthy (body req ''message'')"
  then have r: "regex_test emailRegex s" by (simp add: emailRegex_refines)
  then have "s \<noteq> []" using regex_email_no_space by blast
  then show "status_code (fst (contact_handler env req w)) \<noteq> 400"
    using h r
    by (auto simp: contact_handler_def status_code_simps sendMail_def Let_def
        split: sum.splits prod.splits bool.splits)
qed

theorem invalid_email_rejected_witness:
  "local_at_domain_tld (js ''a@b.com'') \<and> \<not> regex_test emailRegex (js ''ab.com'') \<and>
   status_code (fst (contact_handler example_env
      (example_request\<lparr>body := example_body(''email'' := Str (js ''ab.com''))\<rparr>) empty_world)) = 400 \<and>
   status_code (fst (contact_handler example_env example_request empty_world)) \<noteq> 400"
proof -
  have at: "0x40 \<notin> set (js ''ab.com'')" by (simp add: js_def)
  note t1 = invalid_email_rejected [of "js ''ab.com''"
      "example_request\<lparr>body := example_body(''email'' := Str (js ''ab.com''))\<rparr>" example_env
      empty_world]
  note t2 = invalid_email_rejected [of "js ''a@b.com''" example_request example_env empty_world]
  have b: "body example_request ''email'' = Str (js ''a@b.com'')"
    "truthy (body example_request ''name'')" "truthy (body example_request ''subject'')"
    "truthy (body example_request ''message'')"
    by (simp_all add: example_request_def example_body_def js_Nil_iff)
  have l: "local_at_domain_tld (js ''a@b.com'')"
    using t2 example_email_matches(1) by blast
  have n: "\<not> regex_test emailRegex (js ''ab.com'')" using t1 at by blast
  have "\<not> local_at_domain_tld (js ''ab.com'')" using t1 n by blast
  then have r: "status_code (fst (contact_handler example_env
      (example_request\<lparr>body := example_body(''email'' := Str (js ''ab.com''))\<rparr>) empty_world)) = 400"
    using t1 by (simp add: example_request_def)
  have "status_code (fst (contact_handler example_env example_request empty_world)) \<noteq> 400"
    using t2 b l by simp
  then show ?thesis using l n r by simp
qed

text \<open>
  Claim C9. When the four fields are non-empty strings the handler does not answer with
  400 "All fields are required", also when a field consists of white space only, although
  the trimmed value of such a field is empty.
\<close>

theorem whitespace_passes_required_check:
  assumes "body req ''name'' = Str n" "body req ''email'' = Str e"
          "body req ''subject'' = Str s" "body req ''message'' = Str m"
          "n \<noteq> []" "e \<noteq> []" "s \<noteq> []" "m \<noteq> []"
  shows "fst (contact_handler env req w) \<noteq> json_message 400 (js ''All fields are required'') \<and>
         (list_all isWhiteSpace n \<longrightarrow> trim n = []) \<and> (list_all isWhiteSpace e \<longrightarrow> trim e = []) \<and>
         (list_all isWhiteSpace s \<longrightarrow> trim s = []) \<and> (list_all isWhiteSpace m \<longrightarrow> trim m = [])"
proof -
  have "fst (contact_handler env req w) \<noteq> json_message 400 (js ''All fields are required'')"
    using assms
    by (auto simp: contact_handler_def required_message_differs sendMail_def Let_def
        split: sum.splits prod.splits bool.splits)
  then show ?thesis by (simp add: trim_all_space)
qed

theorem whitespace_passes_required_check_witness:
  "list_all isWhiteSpace (js ''   '') \<and> trim (js ''   '') = [] \<and>
   fst (contact_handler example_env
     (example_request\<lparr>body := example_body(''name'' := Str (js ''   ''))\<rparr>) empty_world) \<noteq>
     json_message 400 (js ''All fields are required'')"
proof -
  have ws: "list_all isWhiteSpace (js ''   '')" by (simp add: js_def isWhiteSpace_def)
  show ?thesis
    using ws whitespace_passes_required_check [of
        "example_request\<lparr>body := example_body(''name'' := Str (js ''   ''))\<rparr>"
        "js ''   ''" "js ''a@b.com''" "js ''Hi''" "js ''Test''" example_env empty_world]
    by (simp add: example_request_def example_body_def js_Nil_iff)
qed

subsection \<open>The stored record and the mails\<close>

text \<open>
  Claim C4, as amended. A submission whose four fields are strings whose stored values
  (trimmed, the email also lower-cased) are not empty and whose email matches the
  pattern, handled while the storage write and both sends succeed, is answered with 200,
  and exactly one Contact record is added: its strings trimmed, its status \<open>new\<close>, its
  email lower-cased by the handler and once more, with a trim, by the setters of the
  schema. For an ASCII email that is the email with A to Z turned into a to z.
\<close>

theorem validated_submission_persisted:
  assumes "body req ''name'' = Str n" "body req ''email'' = Str e"
          "body req ''subject'' = Str s" "body req ''message'' = Str m"
    and "regex_test emailRegex e" "trim n \<noteq> []" "trim s \<noteq> []" "trim m \<noteq> []"
    and "trim (toLowerCase (unicode_toLowerCase env)
           (toLowerCase (unicode_toLowerCase env) (trim e))) \<noteq> []"
    and "contact_save_ok env" "mailOptions_ok env" "autoReplyOptions_ok env"
  shows "fst (contact_handler env req w) =
           json_message 200
             (js ''Message sent successfully! You will receive a confirmation email shortly.'') \<and>
         contacts (snd (contact_handler env req w)) = contacts w @
            [\<lparr>c_name = trim n,
              c_email = trim (toLowerCase (unicode_toLowerCase env)
                          (toLowerCase (unicode_toLowerCase env) (trim e))),
              c_subject = trim s, c_message = trim m, c_ipAddress = ip req,
              c_userAgent = header req ''User-Agent'', c_status = Some (js ''new''),
              c_createdAt = now env, c_readAt = None, c_repliedAt = None\<rparr>] \<and>
         (isASCII e \<longrightarrow>
            trim (toLowerCase (unicode_toLowerCase env)
              (toLowerCase (unicode_toLowerCase env) (trim e))) = map lower e) \<and>
         fst (contact_pipeline env req w) = fst (contact_handler env req w) \<and>
         contacts (snd (contact_pipeline env req w)) = contacts (snd (contact_handler env req w))"
proof -
  obtain w' where w': "trackVisitor env req w = Next w'" "contacts w' = contacts w"
    using trackVisitor_Next by blast
  have ascii: "isASCII e \<longrightarrow>
      trim (toLowerCase (unicode_toLowerCase env)
        (toLowerCase (unicode_toLowerCase env) (trim e))) = map lower e"
    using assms(5) by (simp add: stored_email_ascii)
  show ?thesis
    using assms w' ascii by (simp add: handler_validated contact_pipeline_def)
qed

theorem validated_submission_persisted_witness:
  "fst (contact_pipeline example_env example_request empty_world) =
     json_message 200
       (js ''Message sent successfully! You will receive a confirmation email shortly.'') \<and>
   contacts (snd (contact_pipeline example_env example_request empty_world)) =
     [\<lparr>c_name = js ''A'', c_email = js ''a@b.com'', c_subject = js ''Hi'',
       c_message = js ''Test'', c_ipAddress = Some (js ''203.0.113.7''),
       c_userAgent = Some (js ''curl/8.0''), c_status = Some (js ''new''),
       c_createdAt = 1700000000000, c_readAt = None, c_repliedAt = None\<rparr>]"
  using validated_submission_persisted [of example_request "js ''A''" "js ''a@b.com''" "js ''Hi''"
      "js ''Test''" example_env empty_world]
  by (simp add: example_defs example_email_matches example_trims example_lower js_Nil_iff)

text \<open>
  Claim C4 as stated fails: the example submission is answered with 500 when the first
  send fails, and when the storage write fails (with nothing stored); a submission whose
  name is the number 5, or three spaces, passes both checks of the handler and is
  answered with 500, with nothing stored.
\<close>

theorem validated_submission_counterexample:
  "status_code (fst (contact_handler (example_env\<lparr>mailOptions_ok := False\<rparr>) example_request
      empty_world)) = 500 \<and>
   status_code (fst (contact_handler (example_env\<lparr>contact_save_ok := False\<rparr>) example_request
      empty_world)) = 500 \<and>
   contacts (snd (contact_handler (example_env\<lparr>contact_save_ok := False\<rparr>) example_request
      empty_world)) = [] \<and>
   truthy (Prim True (js ''5'')) \<and>
   status_code (fst (contact_handler example_env
      (example_request\<lparr>body := example_body(''name'' := Prim True (js ''5''))\<rparr>) empty_world)) = 500 \<and>
   contacts (snd (contact_handler example_env
      (example_request\<lparr>body := example_body(''name'' := Prim True (js ''5''))\<rparr>) empty_world)) = [] \<and>
   truthy (Str (js ''   '')) \<and>
   status_code (fst (contact_handler example_env
      (example_request\<lparr>body := example_body(''name'' := Str (js ''   ''))\<rparr>) empty_world)) = 500 \<and>
   contacts (snd (contact_handler example_env
      (example_request\<lparr>body := example_body(''name'' := Str (js ''   ''))\<rparr>) empty_world)) = []"
  by (simp add: contact_handler_def example_defs example_email_matches example_trims
      example_lower js_Nil_iff Let_def new_Contact_def Contact_save_def contact_valid_def
      sendMail_def status_code_simps status_enum_def trim_Nil)

text \<open>
  Claim C10, as amended. For a validated submission that is stored, the record holds the
  trimmed values and the lower-cased email (for an ASCII email, A to Z turned into a to
  z), while the two mails are built from the values as submitted: the alert interpolates the raw name, email, subject and message, the
  acknowledgment is addressed to the raw email and interpolates the raw name, subject and
  message (its body has no place for the email).
\<close>

theorem mails_built_from_raw_values:
  assumes "body req ''name'' = Str n" "body req ''email'' = Str e"
          "body req ''subject'' = Str s" "body req ''message'' = Str m"
    and "regex_test emailRegex e" "trim n \<noteq> []" "trim s \<noteq> []" "trim m \<noteq> []"
    and "trim (toLowerCase (unicode_toLowerCase env)
           (toLowerCase (unicode_toLowerCase env) (trim e))) \<noteq> []"
    and "contact_save_ok env"
  shows "new_events w (snd (contact_handler env req w)) =
           Contact_saved
             \<lparr>c_name = trim n,
              c_email = trim (toLowerCase (unicode_toLowerCase env)
                          (toLowerCase (unicode_toLowerCase env) (trim e))),
              c_subject = trim s, c_message = trim m, c_ipAddress = ip req,
              c_userAgent = header req ''User-Agent'', c_status = Some (js ''new''),
              c_createdAt = now env, c_readAt = None, c_repliedAt = None\<rparr> #
           (if mailOptions_ok env
            then [Mail_sent (mailOptions env req),
                  if autoReplyOptions_ok env then Mail_sent (autoReplyOptions env req)
                  else Mail_failed (autoReplyOptions env req)]
            else [Mail_failed (mailOptions env req)]) \<and>
         (isASCII e \<longrightarrow>
            trim (toLowerCase (unicode_toLowerCase env)
              (toLowerCase (unicode_toLowerCase env) (trim e))) = map lower e) \<and>
         mailOptions env req =
           \<lparr>m_from = EMAIL_USER env, m_to = js ''sujal309206@gmail.com'',
            m_subject = js ''Portfolio Contact: '' @ s,
            m_html = mailOptions_html n e s m (interpolate (ip req))
                       (interpolate (header req ''User-Agent'')) (toLocaleString env (now env))\<rparr> \<and>
         autoReplyOptions env req =
           \<lparr>m_from = EMAIL_USER env, m_to = e,
            m_subject = js ''Thank you for contacting Sujal Javeri'',
            m_html = autoReplyOptions_html n s m\<rparr>"
proof -
  have ascii: "isASCII e \<longrightarrow>
      trim (toLowerCase (unicode_toLowerCase env)
        (toLowerCase (unicode_toLowerCase env) (trim e))) = map lower e"
    using assms(5) by (simp add: stored_email_ascii)
  show ?thesis
    using assms ascii
    by (simp add: handler_validated new_events_def mailOptions_def autoReplyOptions_def)
qed

theorem mails_built_from_raw_values_witness:
  "new_events empty_world (snd (contact_handler example_env
      (example_request\<lparr>body := example_body(''name'' := Str (js '' A ''),
         ''email'' := Str (js ''A@B.com''))\<rparr>) empty_world)) =
     [Contact_saved
        \<lparr>c_name = js ''A'', c_email = js ''a@b.com'', c_subject = js ''Hi'',
         c_message = js ''Test'', c_ipAddress = Some (js ''203.0.113.7''),
         c_userAgent = Some (js ''curl/8.0''), c_status = Some (js ''new''),
         c_createdAt = 1700000000000, c_readAt = None, c_repliedAt = None\<rparr>,
      Mail_sent
        \<lparr>m_from = Some (js ''portfolio@example.com''), m_to = js ''sujal309206@gmail.com'',
         m_subject = js ''Portfolio Contact: '' @ js ''Hi'',
         m_html = mailOptions_html (js '' A '') (js ''A@B.com'') (js ''Hi'') (js ''Test'')
                    (js ''203.0.113.7'') (js ''curl/8.0'') (js ''11/14/2023, 10:13:20 PM'')\<rparr>,
      Mail_sent
        \<lparr>m_from = Some (js ''portfolio@example.com''), m_to = js ''A@B.com'',
         m_subject = js ''Thank you for contacting Sujal Javeri'',
         m_html = autoReplyOptions_html (js '' A '') (js ''Hi'') (js ''Test'')\<rparr>]"
  using mails_built_from_raw_values [of
      "example_request\<lparr>body := example_body(''name'' := Str (js '' A ''),
         ''email'' := Str (js ''A@B.com''))\<rparr>"
      "js '' A ''" "js ''A@B.com''" "js ''Hi''" "js ''Test''" example_env empty_world]
  by (simp add: example_defs example_email_matches example_trims example_lower js_Nil_iff)

text \<open>
  Claim C10 as stated fails for the acknowledgment: its body is the same whatever the
  submitted email is.
\<close>

theorem acknowledgment_body_counterexample:
  "m_html (autoReplyOptions example_env
      (example_request\<lparr>body := example_body(''email'' := Str (js ''someone@example.org''))\<rparr>)) =
   m_html (autoReplyOptions example_env example_request)"
  by (simp add: autoReplyOptions_def example_request_def example_body_def)

section \<open>The visitor tracker\<close>

lemma findOne_Some:
  "findOne P xs = Some i \<Longrightarrow> i < length xs \<and> P (xs ! i)"
proof (induction xs arbitrary: i)
  case Nil
  then show ?case by simp
next
  case (Cons x xs)
  then show ?case by (auto split: if_splits)
qed

lemma findOne_None_iff: "findOne P xs = None \<longleftrightarrow> (\<forall>x\<in>set xs. \<not> P x)"
  by (induction xs) auto

lemma findOne_exists: "\<exists>x\<in>set xs. P x \<Longrightarrow> \<exists>i. findOne P xs = Some i"
  using findOne_None_iff [of P xs] by (cases "findOne P xs") auto

text \<open>
  Claim C6. The tracker always passes on to the handler, and when a storage operation of
  its own fails it leaves the world as it was. When its storage operations succeed and the
  request has an address: if a visitor record with exactly that address exists, that
  record gets its returning flag set, its last visit updated and one visit event for the
  current path appended, and nothing else changes; if none exists, exactly one record is
  added, holding a single visit event.
\<close>

theorem tracker_upserts_and_never_blocks:
  "(\<exists>w'. trackVisitor env req w = Next w' \<and>
      contact_pipeline env req w = contact_handler env req w' \<and>
      blog_slug_route env req w = blog_slug_handler env req w' \<and>
      (\<not> visitor_findOne_ok env \<or> \<not> visitor_save_ok env \<longrightarrow> w' = w)) \<and>
   (visitor_findOne_ok env \<and> visitor_save_ok env \<and>
    or_else (ip req) (remoteAddress req) = Some a \<and> a \<noteq> [] \<longrightarrow>
      ((\<exists>v\<in>set (visitors w). v_ipAddress v = Some a) \<longrightarrow>
         (\<exists>i<length (visitors w). v_ipAddress (visitors w ! i) = Some a \<and>
            trackVisitor env req w =
              Next (w\<lparr>visitors := (visitors w)
                     [i := (visitors w ! i)
                        \<lparr>v_isReturningVisitor := True, v_lastVisit := now env,
                         v_visitedPages := v_visitedPages (visitors w ! i) @
                           [\<lparr>page = originalUrl req, timestamp = now env\<rparr>]\<rparr>]\<rparr>))) \<and>
      ((\<forall>v\<in>set (visitors w). v_ipAddress v \<noteq> Some a) \<longrightarrow>
         trackVisitor env req w =
           Next (w\<lparr>visitors := visitors w @
                  [\<lparr>v_ipAddress = Some a, v_userAgent = header req ''User-Agent'',
                    v_referrer = header req ''Referrer'',
                    v_visitedPages = [\<lparr>page = originalUrl req, timestamp = now env\<rparr>],
                    v_isReturningVisitor = False, v_createdAt = now env,
                    v_lastVisit = now env\<rparr>]\<rparr>)))"
proof (intro conjI impI)
  show "\<exists>w'. trackVisitor env req w = Next w' \<and>
      contact_pipeline env req w = contact_handler env req w' \<and>
      blog_slug_route env req w = blog_slug_handler env req w' \<and>
      (\<not> visitor_findOne_ok env \<or> \<not> visitor_save_ok env \<longrightarrow> w' = w)"
    by (auto simp: trackVisitor_def Visitor_save_def Let_def contact_pipeline_def
        blog_slug_route_def split: option.splits sum.splits)
next
  assume h: "visitor_findOne_ok env \<and> visitor_save_ok env \<and>
    or_else (ip req) (remoteAddress req) = Some a \<and> a \<noteq> []"
    and ex: "\<exists>v\<in>set (visitors w). v_ipAddress v = Some a"
  from findOne_exists [of "visitors w" "\<lambda>v. v_ipAddress v = Some a", OF ex]
  obtain i where i: "findOne (\<lambda>v. v_ipAddress v = Some a) (visitors w) = Some i" by blast
  from findOne_Some [OF i] have p: "i < length (visitors w)" "v_ipAddress (visitors w ! i) = Some a"
    by simp_all
  have "trackVisitor env req w =
      Next (w\<lparr>visitors := (visitors w)
             [i := (visitors w ! i)
                \<lparr>v_isReturningVisitor := True, v_lastVisit := now env,
                 v_visitedPages := v_visitedPages (visitors w ! i) @
                   [\<lparr>page = originalUrl req, timestamp = now env\<rparr>]\<rparr>]\<rparr>)"
    using h i p by (simp add: trackVisitor_def Visitor_save_def visitor_valid_def Let_def)
  then show "\<exists>i<length (visitors w). v_ipAddress (visitors w ! i) = Some a \<and>
      trackVisitor env req w =
        Next (w\<lparr>visitors := (visitors w)
               [i := (visitors w ! i)
                  \<lparr>v_isReturningVisitor := True, v_lastVisit := now env,
                   v_visitedPages := v_visitedPages (visitors w ! i) @
                     [\<lparr>page = originalUrl req, timestamp = now env\<rparr>]\<rparr>]\<rparr>)"
    using p by blast
next
  assume h: "visitor_findOne_ok env \<and> visitor_save_ok env \<and>
    or_else (ip req) (remoteAddress req) = Some a \<and> a \<noteq> []"
    and no: "\<forall>v\<in>set (visitors w). v_ipAddress v \<noteq> Some a"
  have "findOne (\<lambda>v. v_ipAddress v = Some a) (visitors w) = None"
    using no by (simp add: findOne_None_iff)
  then show "trackVisitor env req w =
      Next (w\<lparr>visitors := visitors w @
             [\<lparr>v_ipAddress = Some a, v_userAgent = header req ''User-Agent'',
               v_referrer = header req ''Referrer'',
               v_visitedPages = [\<lparr>page = originalUrl req, timestamp = now env\<rparr>],
               v_isReturningVisitor = False, v_createdAt = now env,
               v_lastVisit = now env\<rparr>]\<rparr>)"
    using h by (simp add: trackVisitor_def Visitor_save_def visitor_valid_def Let_def
        new_Visitor_def)
qed

theorem tracker_upserts_and_never_blocks_witness:
  "trackVisitor example_env example_request empty_world =
     Next (empty_world\<lparr>visitors := [first_visit]\<rparr>) \<and>
   trackVisitor example_env example_request (empty_world\<lparr>visitors := [first_visit]\<rparr>) =
     Next (empty_world\<lparr>visitors :=
       [first_visit\<lparr>v_isReturningVisitor := True,
          v_visitedPages := [\<lparr>page = js ''/api/contact'', timestamp = 1700000000000\<rparr>,
                             \<lparr>page = js ''/api/contact'', timestamp = 1700000000000\<rparr>]\<rparr>]\<rparr>) \<and>
   trackVisitor (example_env\<lparr>visitor_save_ok := False\<rparr>) example_request empty_world =
     Next empty_world \<and>
   contact_pipeline (example_env\<lparr>visitor_save_ok := False\<rparr>) example_request empty_world =
     contact_handler (example_env\<lparr>visitor_save_ok := False\<rparr>) example_request empty_world"
proof -
  have addr: "or_else (ip example_request) (remoteAddress example_request) =
      Some (js ''203.0.113.7'')" "js ''203.0.113.7'' \<noteq> []"
    by (simp_all add: or_else_def example_request_def js_Nil_iff)
  have ok: "visitor_findOne_ok example_env" "visitor_save_ok example_env"
    "\<not> visitor_save_ok (example_env\<lparr>visitor_save_ok := False\<rparr>)"
    by (simp_all add: example_env_def)
  note t = tracker_upserts_and_never_blocks
  have a: "trackVisitor example_env example_request empty_world =
      Next (empty_world\<lparr>visitors := [first_visit]\<rparr>)"
    using t [where env = example_env and req = example_request and w = empty_world
        and a = "js ''203.0.113.7''"] addr ok
    by (simp add: empty_world_def first_visit_def example_request_def example_env_def)
  have b: "trackVisitor example_env example_request (empty_world\<lparr>visitors := [first_visit]\<rparr>) =
     Next (empty_world\<lparr>visitors :=
       [first_visit\<lparr>v_isReturningVisitor := True,
          v_visitedPages := [\<lparr>page = js ''/api/contact'', timestamp = 1700000000000\<rparr>,
                             \<lparr>page = js ''/api/contact'', timestamp = 1700000000000\<rparr>]\<rparr>]\<rparr>)"
    using t [where env = example_env and req = example_request
        and w = "empty_world\<lparr>visitors := [first_visit]\<rparr>" and a = "js ''203.0.113.7''"] addr ok
    by (simp add: empty_world_def first_visit_def example_request_def example_env_def)
  obtain w' where w': "trackVisitor (example_env\<lparr>visitor_save_ok := False\<rparr>) example_request
        empty_world = Next w'"
      "contact_pipeline (example_env\<lparr>visitor_save_ok := False\<rparr>) example_request empty_world =
        contact_handler (example_env\<lparr>visitor_save_ok := False\<rparr>) example_request w'"
      "w' = empty_world"
    using t [where env = "example_env\<lparr>visitor_save_ok := False\<rparr>" and req = example_request
        and w = empty_world] ok(3)
    by blast
  show ?thesis using a b w' by simp
qed

section \<open>Blog views\<close>

text \<open>
  Claim C7, as amended. With the lookup and the save succeeding, fetching a slug carried
  by a post that passes its schema's validation and whose view counter is below
  \<open>2\<^sup>5\<^sup>3\<close> answers 200 with that post, its view counter one higher, and stores
  exactly that change; with the lookup succeeding, fetching a slug that no post carries
  answers 404 and leaves every post as it was.
\<close>

theorem blog_fetch_counts_views:
  "(blog_findOne_ok env \<and> blog_save_ok env \<and>
    (\<exists>b\<in>set (blogs w). b_slug b = params req ''slug'') \<longrightarrow>
      (\<exists>i<length (blogs w). b_slug (blogs w ! i) = params req ''slug'' \<and>
         (blog_valid (blogs w ! i) \<and> b_views (blogs w ! i) < 2 ^ 53 \<longrightarrow>
            fst (blog_slug_route env req w) =
              \<lparr>status_code = 200,
               content = Json_blog ((blogs w ! i)\<lparr>b_views := b_views (blogs w ! i) + 1\<rparr>)\<rparr> \<and>
            blogs (snd (blog_slug_route env req w)) =
              (blogs w)[i := (blogs w ! i)\<lparr>b_views := b_views (blogs w ! i) + 1\<rparr>] \<and>
            blog_slug_handler env req w =
              (\<lparr>status_code = 200,
                content = Json_blog ((blogs w ! i)\<lparr>b_views := b_views (blogs w ! i) + 1\<rparr>)\<rparr>,
               w\<lparr>blogs := (blogs w)
                    [i := (blogs w ! i)\<lparr>b_views := b_views (blogs w ! i) + 1\<rparr>]\<rparr>)))) \<and>
   (blog_findOne_ok env \<and> (\<forall>b\<in>set (blogs w). b_slug b \<noteq> params req ''slug'') \<longrightarrow>
      fst (blog_slug_route env req w) = json_message 404 (js ''Blog post not found'') \<and>
      blogs (snd (blog_slug_route env req w)) = blogs w \<and>
      blog_slug_handler env req w = (json_message 404 (js ''Blog post not found''), w))"
proof (intro conjI impI)
  assume h: "blog_findOne_ok env \<and> blog_save_ok env \<and>
    (\<exists>b\<in>set (blogs w). b_slug b = params req ''slug'')"
  obtain w' where w': "trackVisitor env req w = Next w'" "blogs w' = blogs w"
    using trackVisitor_Next [of env req w] by blast
  from h findOne_exists [of "blogs w" "\<lambda>b. b_slug b = params req ''slug''"]
  obtain i where i: "findOne (\<lambda>b. b_slug b = params req ''slug'') (blogs w) = Some i" by blast
  from findOne_Some [OF i] have p: "i < length (blogs w)" "b_slug (blogs w ! i) = params req ''slug''"
    by simp_all
  have run: "blog_valid (blogs v ! i) \<Longrightarrow> b_views (blogs w ! i) < 2 ^ 53 \<Longrightarrow>
      blogs v = blogs w \<Longrightarrow> blog_slug_handler env req v =
      (\<lparr>status_code = 200,
        content = Json_blog ((blogs w ! i)\<lparr>b_views := b_views (blogs w ! i) + 1\<rparr>)\<rparr>,
       v\<lparr>blogs := (blogs w)[i := (blogs w ! i)\<lparr>b_views := b_views (blogs w ! i) + 1\<rparr>]\<rparr>)" for v
    using h i
    by (simp add: blog_slug_handler_def Blog_save_def blog_valid_def Let_def add_one_def)
  show "\<exists>i<length (blogs w). b_slug (blogs w ! i) = params req ''slug'' \<and>
         (blog_valid (blogs w ! i) \<and> b_views (blogs w ! i) < 2 ^ 53 \<longrightarrow>
            fst (blog_slug_route env req w) =
              \<lparr>status_code = 200,
               content = Json_blog ((blogs w ! i)\<lparr>b_views := b_views (blogs w ! i) + 1\<rparr>)\<rparr> \<and>
            blogs (snd (blog_slug_route env req w)) =
              (blogs w)[i := (blogs w ! i)\<lparr>b_views := b_views (blogs w ! i) + 1\<rparr>] \<and>
            blog_slug_handler env req w =
              (\<lparr>status_code = 200,
                content = Json_blog ((blogs w ! i)\<lparr>b_views := b_views (blogs w ! i) + 1\<rparr>)\<rparr>,
               w\<lparr>blogs := (blogs w)
                    [i := (blogs w ! i)\<lparr>b_views := b_views (blogs w ! i) + 1\<rparr>]\<rparr>))"
    using p run [of w] run [of w'] w' by (intro exI [of _ i]) (simp add: blog_slug_route_def)
next
  assume h: "blog_findOne_ok env \<and> (\<forall>b\<in>set (blogs w). b_slug b \<noteq> params req ''slug'')"
  obtain w' where w': "trackVisitor env req w = Next w'" "blogs w' = blogs w"
    using trackVisitor_Next [of env req w] by blast
  have none: "findOne (\<lambda>b. b_slug b = params req ''slug'') (blogs w) = None"
    using h by (simp add: findOne_None_iff)
  have run: "blogs v = blogs w \<Longrightarrow>
      blog_slug_handler env req v = (json_message 404 (js ''Blog post not found''), v)" for v
    using h none by (simp add: blog_slug_handler_def)
  show "fst (blog_slug_route env req w) = json_message 404 (js ''Blog post not found'')"
    "blogs (snd (blog_slug_route env req w)) = blogs w"
    "blog_slug_handler env req w = (json_message 404 (js ''Blog post not found''), w)"
    using run [of w] run [of w'] w' by (simp_all add: blog_slug_route_def)
qed

theorem blog_fetch_counts_views_witness:
  "blog_slug_handler example_env blog_request (empty_world\<lparr>blogs := [stored_blog]\<rparr>) =
     (\<lparr>status_code = 200, content = Json_blog (stored_blog\<lparr>b_views := 42\<rparr>)\<rparr>,
      empty_world\<lparr>blogs := [stored_blog\<lparr>b_views := 42\<rparr>]\<rparr>) \<and>
   blog_slug_handler example_env blog_request empty_world =
     (json_message 404 (js ''Blog post not found''), empty_world)"
proof -
  note t = blog_fetch_counts_views
  have ok: "blog_findOne_ok example_env" "blog_save_ok example_env"
    by (simp_all add: example_env_def)
  have slug: "params blog_request ''slug'' = js ''hello''" by (simp add: blog_request_def)
  have v: "blog_valid stored_blog" "b_slug stored_blog = js ''hello''" "b_views stored_blog = 41"
    "b_views stored_blog < 2 ^ 53"
    by (simp_all add: blog_valid_def stored_blog_def js_Nil_iff)
  have a: "blog_slug_handler example_env blog_request (empty_world\<lparr>blogs := [stored_blog]\<rparr>) =
     (\<lparr>status_code = 200, content = Json_blog (stored_blog\<lparr>b_views := 42\<rparr>)\<rparr>,
      empty_world\<lparr>blogs := [stored_blog\<lparr>b_views := 42\<rparr>]\<rparr>)"
    using t [where env = example_env and req = blog_request
        and w = "empty_world\<lparr>blogs := [stored_blog]\<rparr>"] ok slug v
    by (simp add: empty_world_def)
  have b: "blog_slug_handler example_env blog_request empty_world =
     (json_message 404 (js ''Blog post not found''), empty_world)"
    using t [where env = example_env and req = blog_request and w = empty_world] ok
    by (simp add: empty_world_def)
  show ?thesis using a b by simp
qed

text \<open>
  Claim C7 as stated fails: when the save fails the fetch is answered with 500 and the
  counter stays where it was; and a counter of \<open>2\<^sup>5\<^sup>3\<close> is returned and stored
  unchanged, since the double \<open>2\<^sup>5\<^sup>3 + 1\<close> is \<open>2\<^sup>5\<^sup>3\<close>.
\<close>

theorem blog_fetch_counterexample:
  "blog_slug_handler (example_env\<lparr>blog_save_ok := False\<rparr>) blog_request
     (empty_world\<lparr>blogs := [stored_blog]\<rparr>) =
     (json_message 500 (js ''Failed to fetch blog post''),
      empty_world\<lparr>blogs := [stored_blog]\<rparr>) \<and>
   blog_slug_handler example_env blog_request
     (empty_world\<lparr>blogs := [stored_blog\<lparr>b_views := 9007199254740992\<rparr>]\<rparr>) =
     (\<lparr>status_code = 200,
       content = Json_blog (stored_blog\<lparr>b_views := 9007199254740992\<rparr>)\<rparr>,
      empty_world\<lparr>blogs := [stored_blog\<lparr>b_views := 9007199254740992\<rparr>]\<rparr>)"
  by (simp add: blog_slug_handler_def Blog_save_def blog_valid_def Let_def add_one_def
      example_env_def blog_request_def stored_blog_def empty_world_def js_Nil_iff)

section \<open>The status of a contact\<close>

text \<open>
  Outside the administrator's route the status is not touched: the contact route only adds
  records with status \<open>new\<close>, the blog route leaves the contacts alone, and the
  administrator's route without a token that verifies changes nothing. With one, it
  answers 404 for an id that no contact has, and otherwise writes the status string it was
  sent, whatever it is.
\<close>

lemma contact_pipeline_keeps_status:
  "\<exists>cs. contacts (snd (contact_pipeline env req w)) = contacts w @ cs \<and>
        list_all (\<lambda>c. c_status c = Some (js ''new'')) cs"
proof -
  obtain w' where w': "trackVisitor env req w = Next w'" "contacts w' = contacts w"
    using trackVisitor_Next by blast
  have "\<exists>cs. contacts (snd (contact_handler env req w')) = contacts w' @ cs \<and>
        list_all (\<lambda>c. c_status c = Some (js ''new'')) cs"
    by (auto simp: contact_handler_def Contact_save_def sendMail_def Let_def new_Contact_def
        split: sum.splits prod.splits if_splits)
  then show ?thesis using w' by (simp add: contact_pipeline_def)
qed

lemma blog_route_keeps_contacts:
  "contacts (snd (blog_slug_route env req w)) = contacts w"
proof -
  obtain w' where w': "trackVisitor env req w = Next w'" "contacts w' = contacts w"
    using trackVisitor_Next by blast
  have "contacts (snd (blog_slug_handler env req w')) = contacts w'"
    by (auto simp: blog_slug_handler_def Blog_save_def Let_def split: option.splits)
  then show ?thesis using w' by (simp add: blog_slug_route_def)
qed

lemma patch_without_token:
  "bearer_token (header req ''authorization'') = None \<Longrightarrow>
   patch_contact_route env req w = (json_message 401 (js ''Access token required''), w)"
  by (simp add: patch_contact_route_def authenticateToken_def)

lemma patch_with_bad_token:
  "bearer_token (header req ''authorization'') = Some t \<Longrightarrow> \<not> jwt_verify env t \<Longrightarrow>
   patch_contact_route env req w = (json_message 403 (js ''Invalid token''), w)"
  by (simp add: patch_contact_route_def authenticateToken_def)

lemma patch_unknown_id:
  "cast_ObjectId env (params req ''id'') = Some i \<Longrightarrow> length (contacts w) \<le> i \<Longrightarrow>
   contact_update_ok env \<Longrightarrow> body req ''status'' = Str s \<Longrightarrow>
   patch_contact_handler env req w = (json_message 404 (js ''Contact not found''), w)"
  by (simp add: patch_contact_handler_def Contact_findByIdAndUpdate_def Let_def)

lemma patch_sets_any_string:
  "cast_ObjectId env (params req ''id'') = Some i \<Longrightarrow> i < length (contacts w) \<Longrightarrow>
   contact_update_ok env \<Longrightarrow> body req ''status'' = Str s \<Longrightarrow>
   c_status (contacts (snd (patch_contact_handler env req w)) ! i) = Some s"
  by (simp add: patch_contact_handler_def Contact_findByIdAndUpdate_def Let_def)

lemma example_token:
  "bearer_token (Some (js ''Bearer signed.admin.token'')) = Some (js ''signed.admin.token'')"
  by (simp add: bearer_token_def js_def)

lemma bogus_not_in_enum: "js ''bogus'' \<notin> set status_enum"
  by (simp add: status_enum_def js_eq_iff)

text \<open>
  Claim C8. The status of a stored contact is meant to stay within the schema's list.
  The administrator's update does not keep it there: with a valid token and the id of a
  stored contact, the status \<open>bogus\<close> is written and returned with 200.
\<close>

theorem patch_status_outside_enum:
  "fst (patch_contact_route example_env patch_request (empty_world\<lparr>contacts := [stored_contact]\<rparr>)) =
     \<lparr>status_code = 200,
      content = Json_contact (js ''Contact updated successfully'')
                  (stored_contact\<lparr>c_status := Some (js ''bogus'')\<rparr>)\<rparr> \<and>
   contacts (snd (patch_contact_route example_env patch_request
      (empty_world\<lparr>contacts := [stored_contact]\<rparr>))) =
     [stored_contact\<lparr>c_status := Some (js ''bogus'')\<rparr>] \<and>
   js ''bogus'' \<notin> set status_enum"
  by (simp add: patch_contact_route_def authenticateToken_def patch_request_def example_token
      example_env_def patch_contact_handler_def Contact_findByIdAndUpdate_def Let_def
      empty_world_def js_eq_iff undefined_key_def bogus_not_in_enum)

section \<open>The rate limiter\<close>

lemma rateLimit_other:
  "key \<noteq> a \<Longrightarrow> snd (rateLimit opts t key store) a = store a"
  by (simp add: rateLimit_def Let_def split: option.splits prod.splits)

lemma rateLimit_in_window:
  "store a = Some (n, r) \<Longrightarrow> t < r \<Longrightarrow>
   rateLimit opts t a store = (n + 1 \<le> max_hits opts, store(a \<mapsto> (n + 1, r)))"
  by (simp add: rateLimit_def)

lemma rateLimit_opens_window:
  "(case store a of None \<Rightarrow> True | Some (n, r) \<Rightarrow> r \<le> t) \<Longrightarrow>
   snd (rateLimit opts t a store) a = Some (1, t + windowMs opts)"
  by (auto simp: rateLimit_def split: option.splits)

lemma contact_route_store:
  "fst (snd (contact_route env req sw)) = snd (rateLimit contactLimiter (now env) (ip req) (fst sw))"
  by (simp add: contact_route_def split: prod.splits bool.splits)

lemma serve_Cons_snd:
  "contact_route e q sw = (resp, sw1) \<Longrightarrow> snd (serve ((e, q) # rs) sw) = snd (serve rs sw1)"
  by (cases "serve rs sw1") simp

lemma serve_counts:
  assumes "fst sw a = Some (n, r)" "\<forall>(e, q) \<in> set rs. ip q = a \<longrightarrow> now e < r"
  shows "fst (snd (serve rs sw)) a = Some (n + length (filter (\<lambda>(e, q). ip q = a) rs), r)"
  using assms
proof (induction rs arbitrary: sw n)
  case Nil
  then show ?case by simp
next
  case (Cons x rs)
  obtain e q where x: "x = (e, q)" by (cases x)
  obtain resp sw1 where step: "contact_route e q sw = (resp, sw1)" by (cases "contact_route e q sw")
  have st: "fst sw1 = snd (rateLimit contactLimiter (now e) (ip q) (fst sw))"
    using contact_route_store [of e q sw] step by simp
  show ?case
  proof (cases "ip q = a")
    case True
    then have "now e < r" using Cons.prems(2) x by simp
    then have "fst sw1 a = Some (n + 1, r)"
      using st True Cons.prems(1) by (simp add: rateLimit_in_window)
    moreover have "\<forall>(e, q) \<in> set rs. ip q = a \<longrightarrow> now e < r" using Cons.prems(2) by simp
    ultimately have "fst (snd (serve rs sw1)) a =
        Some (n + 1 + length (filter (\<lambda>(e, q). ip q = a) rs), r)"
      by (rule Cons.IH)
    then show ?thesis using x True by (simp add: serve_Cons_snd [OF step] del: serve.simps)
  next
    case False
    then have "fst sw1 a = Some (n, r)"
      using st Cons.prems(1) by (simp add: rateLimit_other)
    moreover have "\<forall>(e, q) \<in> set rs. ip q = a \<longrightarrow> now e < r" using Cons.prems(2) by simp
    ultimately have "fst (snd (serve rs sw1)) a =
        Some (n + length (filter (\<lambda>(e, q). ip q = a) rs), r)"
      by (rule Cons.IH)
    then show ?thesis using x False by (simp add: serve_Cons_snd [OF step] del: serve.simps)
  qed
qed

lemma contact_route_refuses:
  assumes "fst sw (ip req) = Some (n, r)" "now env < r" "5 \<le> n"
  shows "fst (contact_route env req sw) =
           \<lparr>status_code = 429,
            content = Text_message
              (js ''Too many contact form submissions, please try again later.'')\<rparr> \<and>
         snd (snd (contact_route env req sw)) = snd sw"
  using assms by (simp add: contact_route_def rateLimit_in_window contactLimiter_def)

text \<open>
  Claim C5. Take the submissions that reach the contact route's limiter, starting with
  one from an address that has no window open. Once five or more from that address have
  arrived within the hour after the first, a further one from it within that hour is
  answered with 429 and the limiter's message, and does not reach the tracker or the
  handler: the world is as before.
\<close>

theorem sixth_submission_rejected:
  assumes "ip freq = a"
    and "case store a of None \<Rightarrow> True | Some (n, r) \<Rightarrow> r \<le> now fenv"
    and "\<forall>(e, q) \<in> set mid. ip q = a \<longrightarrow> now e < now fenv + 60 * 60 * 1000"
    and "4 \<le> length (filter (\<lambda>(e, q). ip q = a) mid)"
    and "ip req = a" "now env < now fenv + 60 * 60 * 1000"
  shows "fst (contact_route env req (snd (serve ((fenv, freq) # mid) (store, w)))) =
           \<lparr>status_code = 429,
            content = Text_message
              (js ''Too many contact form submissions, please try again later.'')\<rparr> \<and>
         snd (snd (contact_route env req (snd (serve ((fenv, freq) # mid) (store, w))))) =
           snd (snd (serve ((fenv, freq) # mid) (store, w)))"
proof -
  obtain resp sw1 where step: "contact_route fenv freq (store, w) = (resp, sw1)"
    by (cases "contact_route fenv freq (store, w)")
  have "fst sw1 = snd (rateLimit contactLimiter (now fenv) (ip freq) store)"
    using contact_route_store [of fenv freq "(store, w)"] step by simp
  then have first: "fst sw1 a = Some (1, now fenv + 60 * 60 * 1000)"
    using assms(1,2) rateLimit_opens_window [where store = store and a = a and t = "now fenv"
        and opts = contactLimiter]
    by (simp add: contactLimiter_def)
  have "fst (snd (serve mid sw1)) a =
      Some (1 + length (filter (\<lambda>(e, q). ip q = a) mid), now fenv + 60 * 60 * 1000)"
    using first assms(3) by (rule serve_counts)
  moreover have "snd (serve ((fenv, freq) # mid) (store, w)) = snd (serve mid sw1)"
    by (rule serve_Cons_snd [OF step])
  ultimately have k: "fst (snd (serve ((fenv, freq) # mid) (store, w))) (ip req) =
      Some (1 + length (filter (\<lambda>(e, q). ip q = a) mid), now fenv + 60 * 60 * 1000)"
    using assms(5) by (simp del: serve.simps)
  have five: "5 \<le> 1 + length (filter (\<lambda>(e, q). ip q = a) mid)"
    using assms(4) by simp
  show ?thesis
    by (rule contact_route_refuses [OF k assms(6) five])
qed

theorem sixth_submission_rejected_witness:
  "fst (contact_route example_env example_request
      (snd (serve [(example_env, example_request), (example_env, example_request),
                   (example_env, example_request), (example_env, example_request),
                   (example_env, example_request)] (\<lambda>k. None, empty_world)))) =
     \<lparr>status_code = 429,
      content = Text_message
        (js ''Too many contact form submissions, please try again later.'')\<rparr> \<and>
   snd (snd (contact_route example_env example_request
      (snd (serve [(example_env, example_request), (example_env, example_request),
                   (example_env, example_request), (example_env, example_request),
                   (example_env, example_request)] (\<lambda>k. None, empty_world))))) =
   snd (snd (serve [(example_env, example_request), (example_env, example_request),
                   (example_env, example_request), (example_env, example_request),
                   (example_env, example_request)] (\<lambda>k. None, empty_world)))"
  using sixth_submission_rejected [where freq = example_request and a = "ip example_request"
      and store = "\<lambda>k. None" and fenv = example_env
      and mid = "[(example_env, example_request), (example_env, example_request),
                  (example_env, example_request), (example_env, example_request)]"
      and req = example_request and env = example_env and w = empty_world]
  by simp

end
